theory Spec2Isabelle
  imports Complex_Main "HOL-Library.Code_Target_Numeral"
begin

section \<open>Python string primitives used by the header parser\<close>

text \<open>
  Header text is modelled as ASCII: a \<open>string\<close> is a list of bytes.  The whitespace
  class is the ASCII part of what \<open>str.strip()\<close> removes.
\<close>

definition py_isspace :: "char \<Rightarrow> bool" where
  "py_isspace c = (c \<in> set [CHR '' '', CHR 0x09, CHR 0x0A, CHR 0x0B, CHR 0x0C, CHR 0x0D,
                              CHR 0x1C, CHR 0x1D, CHR 0x1E, CHR 0x1F])"

definition lstrip :: "string \<Rightarrow> string" where
  "lstrip s = dropWhile py_isspace s"

definition rstrip :: "string \<Rightarrow> string" where
  "rstrip s = rev (dropWhile py_isspace (rev s))"

definition strip :: "string \<Rightarrow> string" where
  "strip s = lstrip (rstrip s)"

text \<open>\<open>s.split(sep)\<close> for a one-character separator: never empty.\<close>

fun split_on :: "char \<Rightarrow> string \<Rightarrow> string list" where
  "split_on sep [] = [[]]"
| "split_on sep (c # cs) =
     (if c = sep then [] # split_on sep cs
      else (case split_on sep cs of [] \<Rightarrow> [[c]] | p # ps \<Rightarrow> (c # p) # ps))"

text \<open>\<open>s.split(sep, 1)\<close> when \<open>sep\<close> occurs in \<open>s\<close>: the text before and after the first
  occurrence.\<close>

definition split_first :: "char \<Rightarrow> string \<Rightarrow> string \<times> string" where
  "split_first sep s = (takeWhile (\<lambda>c. c \<noteq> sep) s, tl (dropWhile (\<lambda>c. c \<noteq> sep) s))"

definition py_lower_char :: "char \<Rightarrow> char" where
  "py_lower_char c =
     (case map_of (zip ''ABCDEFGHIJKLMNOPQRSTUVWXYZ'' ''abcdefghijklmnopqrstuvwxyz'') c of
        Some d \<Rightarrow> d | None \<Rightarrow> c)"

definition lower :: "string \<Rightarrow> string" where
  "lower s = map py_lower_char s"

definition startswith :: "string \<Rightarrow> string \<Rightarrow> bool" where
  "startswith sub s = (take (length sub) s = sub)"

text \<open>\<open>sub in s\<close> for strings.\<close>

fun contains :: "string \<Rightarrow> string \<Rightarrow> bool" where
  "contains sub [] = (sub = [])"
| "contains sub (c # cs) = (startswith sub (c # cs) \<or> contains sub cs)"

text \<open>\<open>s.replace(old, new)\<close> for a non-empty \<open>old\<close>: every non-overlapping occurrence,
  left to right.\<close>

function replace :: "string \<Rightarrow> string \<Rightarrow> string \<Rightarrow> string" where
  "replace old new s =
     (if old = [] \<or> s = [] then s
      else if startswith old s then new @ replace old new (drop (length old) s)
      else hd s # replace old new (tl s))"
  by pat_completeness auto
termination
  by (relation "measure (\<lambda>(old, new, s). length s)") (auto simp: neq_Nil_conv)

declare replace.simps [simp del]

text \<open>\<open>sep.join(xs)\<close>.\<close>

fun join :: "string \<Rightarrow> string list \<Rightarrow> string" where
  "join sep [] = []"
| "join sep [x] = x"
| "join sep (x # y # ys) = x @ sep @ join sep (y # ys)"

section \<open>Numbers\<close>

text \<open>
  A Python float or a float32 cube element is modelled by its exact value: a rational
  when finite, or one of the three special values.  Rounding to the binary format and
  the sign of zero are outside the model.
\<close>

datatype fval = Fin rat | PInf | NInf | NaN

fun fneg :: "fval \<Rightarrow> fval" where
  "fneg (Fin a) = Fin (- a)"
| "fneg PInf = NInf"
| "fneg NInf = PInf"
| "fneg NaN = NaN"

fun fadd :: "fval \<Rightarrow> fval \<Rightarrow> fval" where
  "fadd (Fin a) (Fin b) = Fin (a + b)"
| "fadd NaN _ = NaN"
| "fadd _ NaN = NaN"
| "fadd PInf NInf = NaN"
| "fadd NInf PInf = NaN"
| "fadd PInf _ = PInf"
| "fadd NInf _ = NInf"
| "fadd _ PInf = PInf"
| "fadd _ NInf = NInf"

definition fsub :: "fval \<Rightarrow> fval \<Rightarrow> fval" where
  "fsub a b = fadd a (fneg b)"

text \<open>The sign of an infinite product, or NaN when the other factor is zero.\<close>

definition inf_times :: "bool \<Rightarrow> rat \<Rightarrow> fval" where
  "inf_times pos a = (if a = 0 then NaN else if (0 < a) = pos then PInf else NInf)"

fun fmul :: "fval \<Rightarrow> fval \<Rightarrow> fval" where
  "fmul (Fin a) (Fin b) = Fin (a * b)"
| "fmul NaN _ = NaN"
| "fmul _ NaN = NaN"
| "fmul PInf (Fin a) = inf_times True a"
| "fmul NInf (Fin a) = inf_times False a"
| "fmul (Fin a) PInf = inf_times True a"
| "fmul (Fin a) NInf = inf_times False a"
| "fmul PInf PInf = PInf"
| "fmul NInf NInf = PInf"
| "fmul PInf NInf = NInf"
| "fmul NInf PInf = NInf"

text \<open>Division of a float by a non-zero finite constant (the source only divides by the
  literal \<open>1000.0\<close>).\<close>

definition fdiv_const :: "fval \<Rightarrow> rat \<Rightarrow> fval" where
  "fdiv_const x c = fmul x (Fin (1 / c))"

subsection \<open>\<open>int(str)\<close>\<close>

definition is_digit :: "char \<Rightarrow> bool" where
  "is_digit c = (c \<in> set ''0123456789'')"

definition digit_val :: "char \<Rightarrow> nat" where
  "digit_val c = (case map_of (zip ''0123456789'' [0, 1, 2, 3, 4, 5, 6, 7, 8, 9]) c of
                    Some d \<Rightarrow> d | None \<Rightarrow> 0)"

text \<open>A digit part: digits, with single underscores allowed between digits.\<close>

fun valid_digitpart :: "string \<Rightarrow> bool" where
  "valid_digitpart [] = False"
| "valid_digitpart [c] = is_digit c"
| "valid_digitpart (c # d # cs) =
     (is_digit c \<and> (if d = CHR ''_'' then cs \<noteq> [] \<and> valid_digitpart cs
                     else valid_digitpart (d # cs)))"

definition digits_value :: "string \<Rightarrow> nat" where
  "digits_value s = foldl (\<lambda>n c. 10 * n + digit_val c) 0 (filter (\<lambda>c. c \<noteq> CHR ''_'') s)"

text \<open>A leading sign: whether it is a minus, and the rest.\<close>

definition take_sign :: "string \<Rightarrow> bool \<times> string" where
  "take_sign s = (case s of [] \<Rightarrow> (False, [])
                  | c # cs \<Rightarrow> if c = CHR ''-'' then (True, cs)
                              else if c = CHR ''+'' then (False, cs) else (False, s))"

text \<open>\<open>int\<close> refuses a text of more than 4300 digits with a \<open>ValueError\<close>.\<close>

definition py_int :: "string \<Rightarrow> int option" where
  "py_int s = (let (neg, body) = take_sign (strip s)
               in if valid_digitpart body \<and> length (filter is_digit body) \<le> 4300
                  then Some (if neg then - int (digits_value body) else int (digits_value body))
                  else None)"

subsection \<open>\<open>float(str)\<close>\<close>

definition is_exp_char :: "char \<Rightarrow> bool" where
  "is_exp_char c = (c = CHR ''e'' \<or> c = CHR ''E'')"

text \<open>The mantissa \<open>ip.fp\<close>: at least one of the two digit parts is present.\<close>

definition valid_mantissa :: "string \<Rightarrow> bool" where
  "valid_mantissa m =
     (if CHR ''.'' \<in> set m
      then (let (ip, fp) = split_first CHR ''.'' m
            in (ip = [] \<or> valid_digitpart ip) \<and> (fp = [] \<or> valid_digitpart fp)
               \<and> \<not> (ip = [] \<and> fp = []))
      else valid_digitpart m)"

definition mantissa_value :: "string \<Rightarrow> rat" where
  "mantissa_value m =
     (if CHR ''.'' \<in> set m
      then (let (ip, fp) = split_first CHR ''.'' m
            in of_nat (digits_value ip)
               + of_nat (digits_value fp) / 10 ^ length (filter (\<lambda>c. c \<noteq> CHR ''_'') fp))
      else of_nat (digits_value m))"

definition valid_exponent :: "string \<Rightarrow> bool" where
  "valid_exponent e = valid_digitpart (snd (take_sign e))"

definition exponent_scale :: "string \<Rightarrow> rat" where
  "exponent_scale e = (let (neg, d) = take_sign e
                       in if neg then 1 / 10 ^ digits_value d else 10 ^ digits_value d)"

text \<open>The decimal literal after the sign has been removed.\<close>

definition py_decimal :: "string \<Rightarrow> rat option" where
  "py_decimal body =
     (let m = takeWhile (\<lambda>c. \<not> is_exp_char c) body;
          r = dropWhile (\<lambda>c. \<not> is_exp_char c) body
      in if r = [] then (if valid_mantissa m then Some (mantissa_value m) else None)
         else if valid_mantissa m \<and> valid_exponent (tl r)
              then Some (mantissa_value m * exponent_scale (tl r))
              else None)"

text \<open>The range of a float: a decimal at or beyond the midpoint between the largest
  float and \<open>2 ^ 1024\<close> is read as infinite, one at or below half of the smallest
  positive float as zero.  Rounding inside the range is not modelled.\<close>

definition float64_limit :: rat where
  "float64_limit = 2 ^ 1024 - 2 ^ 970"

definition float64_tiny :: rat where
  "float64_tiny = 1 / 2 ^ 1075"

definition to_double :: "rat \<Rightarrow> fval" where
  "to_double q =
     (if float64_limit \<le> q then PInf
      else if q \<le> - float64_limit then NInf
      else if \<bar>q\<bar> \<le> float64_tiny then Fin 0
      else Fin q)"

definition py_float :: "string \<Rightarrow> fval option" where
  "py_float s =
     (let (neg, body) = take_sign (strip s)
      in if lower body = ''inf'' \<or> lower body = ''infinity''
         then Some (if neg then NInf else PInf)
         else if lower body = ''nan'' then Some NaN
         else (case py_decimal body of
                 None \<Rightarrow> None
               | Some q \<Rightarrow> Some (to_double (if neg then - q else q))))"

text \<open>\<open>[float(x) for x in xs]\<close>: \<open>None\<close> when some element raises \<open>ValueError\<close>.\<close>

fun float_all :: "string list \<Rightarrow> fval list option" where
  "float_all [] = Some []"
| "float_all (x # xs) =
     (case py_float x of
        None \<Rightarrow> None
      | Some v \<Rightarrow> (case float_all xs of None \<Rightarrow> None | Some vs \<Rightarrow> Some (v # vs)))"

subsection \<open>Rendering: \<open>str(int)\<close> and the format \<open>0.6f\<close>\<close>

definition digit_char :: "nat \<Rightarrow> char" where
  "digit_char d = ''0123456789'' ! (d mod 10)"

function show_nat :: "nat \<Rightarrow> string" where
  "show_nat n = (if n < 10 then [digit_char n] else show_nat (n div 10) @ [digit_char (n mod 10)])"
  by pat_completeness auto
termination
  by (relation "measure id") auto

declare show_nat.simps [simp del]

definition show_int :: "int \<Rightarrow> string" where
  "show_int i = (if i < 0 then CHR ''-'' # show_nat (nat (- i)) else show_nat (nat i))"

text \<open>Exactly \<open>k\<close> decimal digits of \<open>n\<close>, zero padded.\<close>

fun show_fixed :: "nat \<Rightarrow> nat \<Rightarrow> string" where
  "show_fixed 0 n = []"
| "show_fixed (Suc k) n = show_fixed k (n div 10) @ [digit_char (n mod 10)]"

definition round_half_even :: "rat \<Rightarrow> int" where
  "round_half_even x =
     (let f = \<lfloor>x\<rfloor>; d = x - of_int f
      in if d < 1 / 2 then f else if 1 / 2 < d then f + 1
         else if even f then f else f + 1)"

text \<open>The number of millionths printed by \<open>0.6f\<close> for a finite value.\<close>

definition micro :: "rat \<Rightarrow> nat" where
  "micro q = nat (round_half_even (\<bar>q\<bar> * 1000000))"

definition format6 :: "fval \<Rightarrow> string" where
  "format6 v =
     (case v of
        NaN \<Rightarrow> ''nan''
      | PInf \<Rightarrow> ''inf''
      | NInf \<Rightarrow> ''-inf''
      | Fin q \<Rightarrow> (if q < 0 then ''-'' else '''')
                 @ show_nat (micro q div 1000000) @ ''.'' @ show_fixed 6 (micro q mod 1000000))"

section \<open>Header values and \<open>read_header\<close>\<close>

datatype error =
    FileNotFoundError string
  | KeyError string
  | TypeError
  | ValueError string
  | NotText string
  | NotACube string

text \<open>
  What \<open>read_header\<close> can store under a key: a string, an \<open>int\<close>, a list of floats, or
  (when a piece of a list is not a float) a list of strings.
\<close>

datatype hvalue = Str string | IntV int | FloatList "fval list" | StrList "string list"

type_synonym header_map = "string \<rightharpoonup> hvalue"

record pstate =
  header_info :: header_map
  current_array :: "string option"
  array_data :: "string list"

definition init_pstate :: pstate where
  "init_pstate = \<lparr>header_info = Map.empty, current_array = None, array_data = []\<rparr>"

text \<open>\<open>if current_array\<close>: \<open>None\<close> and the empty key are both false.\<close>

definition collecting :: "pstate \<Rightarrow> bool" where
  "collecting st = (case current_array st of None \<Rightarrow> False | Some k \<Rightarrow> k \<noteq> [])"

text \<open>\<open>try: [float(x) for x in xs]  except ValueError: fallback\<close>.\<close>

definition floats_or_strings :: "string list \<Rightarrow> string list \<Rightarrow> hvalue" where
  "floats_or_strings xs fallback =
     (case float_all xs of Some vs \<Rightarrow> FloatList vs | None \<Rightarrow> StrList fallback)"

definition comma_pieces :: "string \<Rightarrow> string list" where
  "comma_pieces s = map strip (split_on CHR '','' s)"

text \<open>Lines 56 to 62: a value with both braces on one line.  The guard \<open>'{' in value\<close>
  makes index 1 of the split exist.\<close>

definition inner_text :: "string \<Rightarrow> string" where
  "inner_text v = strip (hd (split_on CHR ''}'' (split_on CHR ''{'' v ! 1)))"

definition brace_value :: "string \<Rightarrow> hvalue" where
  "brace_value v =
     (let inner = inner_text v
      in if CHR '','' \<in> set inner
         then (let ps = filter (\<lambda>x. x \<noteq> []) (comma_pieces inner) in floats_or_strings ps ps)
         else Str inner)"

definition numeric_keys :: "string list" where
  "numeric_keys = [''samples'', ''lines'', ''bands'', ''data type'']"

text \<open>Lines 65 to 69: \<open>int(value)\<close> for the four numeric keys.  A \<open>ValueError\<close> is
  caught; \<open>int\<close> of a list raises \<open>TypeError\<close>, which is not.\<close>

definition convert_numeric :: "string \<Rightarrow> hvalue \<Rightarrow> error + hvalue" where
  "convert_numeric key v =
     (if key \<in> set numeric_keys
      then (case v of
              Str s \<Rightarrow> (case py_int s of Some n \<Rightarrow> Inr (IntV n) | None \<Rightarrow> Inr (Str s))
            | IntV n \<Rightarrow> Inr (IntV n)
            | FloatList _ \<Rightarrow> Inl TypeError
            | StrList _ \<Rightarrow> Inl TypeError)
      else Inr v)"

text \<open>Lines 56 to 71 for a value that does not open a multi-line list.\<close>

definition decode_value :: "string \<Rightarrow> string \<Rightarrow> error + hvalue" where
  "decode_value key v =
     convert_numeric key
       (if CHR ''{'' \<in> set v \<and> CHR ''}'' \<in> set v then brace_value v else Str v)"

text \<open>The body of the loop over the lines, lines 27 to 71.\<close>

definition process_line :: "pstate \<Rightarrow> string \<Rightarrow> error + pstate" where
  "process_line st raw =
     (let line = strip raw
      in if line = [] then Inr st
         else if collecting st \<and> CHR ''}'' \<notin> set line
         then Inr (st\<lparr>array_data := array_data st @ comma_pieces line\<rparr>)
         else if collecting st
         then (let ad = array_data st @ comma_pieces (hd (split_on CHR ''}'' line))
               in Inr \<lparr>header_info = (header_info st)
                          (the (current_array st) \<mapsto>
                             floats_or_strings (filter (\<lambda>x. x \<noteq> []) ad) ad),
                        current_array = None, array_data = []\<rparr>)
         else if CHR ''='' \<in> set line
         then (let key = lower (strip (fst (split_first CHR ''='' line)));
                   v = strip (snd (split_first CHR ''='' line))
               in if CHR ''{'' \<in> set v \<and> CHR ''}'' \<notin> set v
                  then Inr (st\<lparr>current_array := Some key,
                               array_data := comma_pieces (split_on CHR ''{'' v ! 1)\<rparr>)
                  else (case decode_value key v of
                          Inl e \<Rightarrow> Inl e
                        | Inr hv \<Rightarrow> Inr (st\<lparr>header_info := (header_info st)(key \<mapsto> hv)\<rparr>)))
         else Inr st)"

fun read_lines :: "pstate \<Rightarrow> string list \<Rightarrow> error + pstate" where
  "read_lines st [] = Inr st"
| "read_lines st (l # ls) =
     (case process_line st l of Inl e \<Rightarrow> Inl e | Inr st' \<Rightarrow> read_lines st' ls)"

text \<open>\<open>read_header\<close> once \<open>f.readlines()\<close> has been called: the map is returned whatever
  the final state is.\<close>

definition parse_header :: "string list \<Rightarrow> error + header_map" where
  "parse_header ls =
     (case read_lines init_pstate ls of Inl e \<Rightarrow> Inl e | Inr st \<Rightarrow> Inr (header_info st))"

subsection \<open>Files\<close>

text \<open>
  A file holds text or a flat array of float32 values: the complete four-byte values of
  the file (the byte encoding is not modelled, and a file of fewer than four bytes is the
  empty array).  Reading one as the other is reported by the model as \<open>NotText\<close> or
  \<open>NotACube\<close>.
\<close>

datatype content = Text string | Floats "fval list"

type_synonym fs = "string \<rightharpoonup> content"

text \<open>Text mode translates \<open>\r\n\<close> and \<open>\r\<close> to \<open>\n\<close>.\<close>

fun universal_newlines :: "string \<Rightarrow> string" where
  "universal_newlines [] = []"
| "universal_newlines [c] = [if c = CHR 0x0D then CHR 0x0A else c]"
| "universal_newlines (c # d # cs) =
     (if c = CHR 0x0D \<and> d = CHR 0x0A then CHR 0x0A # universal_newlines cs
      else if c = CHR 0x0D then CHR 0x0A # universal_newlines (d # cs)
      else c # universal_newlines (d # cs))"

text \<open>Lines keep their terminator; \<open>cur\<close> is the line being collected.\<close>

fun split_lines :: "string \<Rightarrow> string \<Rightarrow> string list" where
  "split_lines cur [] = (if cur = [] then [] else [cur])"
| "split_lines cur (c # cs) =
     (if c = CHR 0x0A then (cur @ [c]) # split_lines [] cs else split_lines (cur @ [c]) cs)"

definition readlines :: "string \<Rightarrow> string list" where
  "readlines txt = split_lines [] (universal_newlines txt)"

definition read_header :: "fs \<Rightarrow> string \<Rightarrow> error + header_map" where
  "read_header files header_file =
     (case files header_file of
        None \<Rightarrow> Inl (FileNotFoundError header_file)
      | Some (Floats _) \<Rightarrow> Inl (NotText header_file)
      | Some (Text txt) \<Rightarrow> parse_header (readlines txt))"

section \<open>The correction engine\<close>

text \<open>The two dictionaries of paths passed to the engine.\<close>

record files =
  data :: string
  header :: string

text \<open>
  \<open>str()\<close> of a float and \<open>repr()\<close> of a string are Python built-ins whose output
  is not fixed here; the engine only meets them when a header value that it prints is a
  list.
\<close>

record builtins =
  float_str :: "fval \<Rightarrow> string"
  str_repr :: "string \<Rightarrow> string"

definition py_str :: "builtins \<Rightarrow> hvalue \<Rightarrow> string" where
  "py_str bi v =
     (case v of
        Str s \<Rightarrow> s
      | IntV n \<Rightarrow> show_int n
      | FloatList vs \<Rightarrow> ''['' @ join '', '' (map (float_str bi) vs) @ '']''
      | StrList xs \<Rightarrow> ''['' @ join '', '' (map (str_repr bi) xs) @ '']'')"

definition lookup :: "header_map \<Rightarrow> string \<Rightarrow> error + hvalue" where
  "lookup h k = (case h k of None \<Rightarrow> Inl (KeyError k) | Some v \<Rightarrow> Inr v)"

subsection \<open>Lines 95 to 99: the dimension check\<close>

text \<open>Python's \<open>==\<close> on floats and on header values: NaN equals nothing, the lists
  compare by length and element.\<close>

fun float_eq :: "fval \<Rightarrow> fval \<Rightarrow> bool" where
  "float_eq NaN _ = False"
| "float_eq _ NaN = False"
| "float_eq a b = (a = b)"

fun py_eq :: "hvalue \<Rightarrow> hvalue \<Rightarrow> bool" where
  "py_eq (Str a) (Str b) = (a = b)"
| "py_eq (IntV a) (IntV b) = (a = b)"
| "py_eq (FloatList a) (FloatList b) = (length a = length b \<and> list_all2 float_eq a b)"
| "py_eq (StrList a) (StrList b) = (a = b)"
| "py_eq (FloatList a) (StrList b) = (a = [] \<and> b = [])"
| "py_eq (StrList a) (FloatList b) = (a = [] \<and> b = [])"
| "py_eq _ _ = False"

text \<open>\<open>refl_header[k] != rad_header[k]\<close>; a missing key raises \<open>KeyError\<close>.\<close>

definition differs :: "header_map \<Rightarrow> header_map \<Rightarrow> string \<Rightarrow> error + bool" where
  "differs refl_header rad_header k =
     (case lookup refl_header k of
        Inl e \<Rightarrow> Inl e
      | Inr a \<Rightarrow> (case lookup rad_header k of Inl e \<Rightarrow> Inl e | Inr b \<Rightarrow> Inr (\<not> py_eq a b)))"

text \<open>The condition of line 96, with the short cut of \<open>or\<close>.\<close>

definition dimension_mismatch :: "header_map \<Rightarrow> header_map \<Rightarrow> error + bool" where
  "dimension_mismatch refl_header rad_header =
     (case differs refl_header rad_header ''samples'' of
        Inl e \<Rightarrow> Inl e
      | Inr True \<Rightarrow> Inr True
      | Inr False \<Rightarrow>
          (case differs refl_header rad_header ''lines'' of
             Inl e \<Rightarrow> Inl e
           | Inr True \<Rightarrow> Inr True
           | Inr False \<Rightarrow> differs refl_header rad_header ''bands''))"

definition mismatch_error :: error where
  "mismatch_error = ValueError ''Dimension mismatch between reflectance and radiance data''"

subsection \<open>Lines 107 to 110 and 152 to 158: wavelengths and the band factor\<close>

definition truthy :: "hvalue \<Rightarrow> bool" where
  "truthy v = (case v of Str s \<Rightarrow> s \<noteq> [] | IntV n \<Rightarrow> n \<noteq> 0
               | FloatList vs \<Rightarrow> vs \<noteq> [] | StrList xs \<Rightarrow> xs \<noteq> [])"

text \<open>\<open>rad_header.get('wavelength', None)\<close>: the reflectance header is not consulted.\<close>

definition get_wavelengths :: "header_map \<Rightarrow> header_map \<Rightarrow> hvalue option" where
  "get_wavelengths refl_header rad_header = rad_header ''wavelength''"

text \<open>Lines 109 and 110: \<open>len(wavelengths)\<close> is printed when the value is true; \<open>len\<close>
  of an \<open>int\<close> raises \<open>TypeError\<close>.\<close>

definition report_wavelengths :: "hvalue option \<Rightarrow> error + unit" where
  "report_wavelengths wavelengths =
     (case wavelengths of Some (IntV n) \<Rightarrow> if n \<noteq> 0 then Inl TypeError else Inr ()
      | _ \<Rightarrow> Inr ())"

text \<open>\<open>1.0 + (wavelength - 500) / 1000.0\<close>.\<close>

definition wavelength_factor :: "fval \<Rightarrow> fval" where
  "wavelength_factor w = fadd (Fin 1) (fdiv_const (fsub w (Fin 500)) 1000)"

text \<open>The factor of a band.  \<open>len\<close> of an \<open>int\<close>, and subtracting 500 from a string or
  from a character of a string, raise \<open>TypeError\<close>.\<close>

definition correction_factor :: "hvalue option \<Rightarrow> nat \<Rightarrow> error + fval" where
  "correction_factor wavelengths band =
     (case wavelengths of
        None \<Rightarrow> Inr (Fin 1)
      | Some (FloatList ws) \<Rightarrow>
          if ws \<noteq> [] \<and> band < length ws then Inr (wavelength_factor (ws ! band))
          else Inr (Fin 1)
      | Some (StrList xs) \<Rightarrow> if xs \<noteq> [] \<and> band < length xs then Inl TypeError else Inr (Fin 1)
      | Some (Str s) \<Rightarrow> if s \<noteq> [] \<and> band < length s then Inl TypeError else Inr (Fin 1)
      | Some (IntV n) \<Rightarrow> if n \<noteq> 0 then Inl TypeError else Inr (Fin 1))"

subsection \<open>Lines 120 to 142: the radiance scale factor\<close>

text \<open>On the lower-cased description: the text between the last \<open>*\<close> and the next
  \<open>]\<close>, or the default when the pattern is absent or \<open>float\<close> raises.\<close>

definition scale_from :: "string \<Rightarrow> fval" where
  "scale_from desc =
     (if contains ''mw'' desc \<and> CHR ''*'' \<in> set desc
      then (case py_float (strip (hd (split_on CHR '']'' (last (split_on CHR ''*'' desc))))) of
              Some v \<Rightarrow> v | None \<Rightarrow> Fin 1000)
      else Fin 1000)"

definition radiance_scale :: "builtins \<Rightarrow> header_map \<Rightarrow> fval" where
  "radiance_scale bi rad_header =
     (case rad_header ''description'' of
        None \<Rightarrow> Fin 1000
      | Some (Str s) \<Rightarrow> scale_from (lower s)
      | Some (IntV n) \<Rightarrow> Fin 1000
      | Some (FloatList vs) \<Rightarrow> scale_from (lower (join '' '' (map (float_str bi) vs)))
      | Some (StrList xs) \<Rightarrow> scale_from (lower (join '' '' xs)))"

subsection \<open>Lines 112 to 118 and 146 to 147: the two memory maps\<close>

text \<open>The three dimensions when they are integers.\<close>

definition int_dims :: "hvalue \<Rightarrow> hvalue \<Rightarrow> hvalue \<Rightarrow> (int \<times> int \<times> int) option" where
  "int_dims nbands nlines nsamples =
     (case (nbands, nlines, nsamples) of
        (IntV b, IntV l, IntV s) \<Rightarrow> Some (b, l, s)
      | _ \<Rightarrow> None)"

text \<open>
  Mode \<open>w+\<close> (numpy 2.2 and later): the file is opened for writing, which creates or
  truncates it, before the shape is looked at.  A dimension that is not an integer raises
  \<open>TypeError\<close> when the byte count is computed and leaves the empty file.  Otherwise the
  file is extended with zero bytes to the product of the dimensions, or to one byte (no
  complete float32) when the product is not positive; then a negative dimension is refused
  by the array constructor.  Dimensions of zero give a cube with no element.
\<close>

definition memmap_create ::
  "fs \<Rightarrow> string \<Rightarrow> hvalue \<Rightarrow> hvalue \<Rightarrow> hvalue \<Rightarrow> fs \<times> (error + nat \<times> nat \<times> nat)" where
  "memmap_create fs0 output_file nbands nlines nsamples =
     (case int_dims nbands nlines nsamples of
        None \<Rightarrow> (fs0(output_file \<mapsto> Floats []), Inl TypeError)
      | Some (b, l, s) \<Rightarrow>
          if b < 0 \<or> l < 0 \<or> s < 0
          then (fs0(output_file \<mapsto> Floats (replicate (nat (b * l * s)) (Fin 0))),
                Inl (ValueError ''negative dimensions are not allowed''))
          else (fs0(output_file \<mapsto> Floats (replicate (nat b * nat l * nat s) (Fin 0))),
                Inr (nat b, nat l, nat s)))"

text \<open>Mode \<open>r\<close>: the file must exist and hold at least the cube.\<close>

definition memmap_open :: "fs \<Rightarrow> string \<Rightarrow> nat \<Rightarrow> error + unit" where
  "memmap_open fs0 path n =
     (case fs0 path of
        None \<Rightarrow> Inl (FileNotFoundError path)
      | Some (Text _) \<Rightarrow> Inl (NotACube path)
      | Some (Floats xs) \<Rightarrow> if length xs < n then Inl (ValueError ''mmap length'') else Inr ())"

text \<open>The current float32 contents behind a memory map.\<close>

definition floats_of :: "fs \<Rightarrow> string \<Rightarrow> fval list" where
  "floats_of fs0 path = (case fs0 path of Some (Floats xs) \<Rightarrow> xs | _ \<Rightarrow> [])"

subsection \<open>Lines 149 to 176: the loops over bands and chunks\<close>

text \<open>\<open>np.clip(x, 0, 1)\<close>: NaN stays NaN.\<close>

fun clip01 :: "fval \<Rightarrow> fval" where
  "clip01 (Fin a) = Fin (max 0 (min 1 a))"
| "clip01 PInf = Fin 1"
| "clip01 NInf = Fin 0"
| "clip01 NaN = NaN"

text \<open>
  \<open>chunk * correction_factor\<close> multiplies a float32 array by a Python float: numpy
  converts the factor to float32 first: a factor beyond the float32 range becomes
  infinite, one at or below half of the smallest positive float32 becomes zero.  The bound
  is the midpoint between the largest float32 and \<open>2 ^ 128\<close>.  Rounding inside the range is
  not modelled; a product beyond the range is clipped to the same bound as the infinity
  numpy computes.
\<close>

definition float32_limit :: rat where
  "float32_limit = 2 ^ 128 - 2 ^ 103"

definition float32_tiny :: rat where
  "float32_tiny = 1 / 2 ^ 150"

definition cast32 :: "fval \<Rightarrow> fval" where
  "cast32 v =
     (case v of
        Fin q \<Rightarrow> if float32_limit \<le> q then PInf
                 else if q \<le> - float32_limit then NInf
                 else if \<bar>q\<bar> \<le> float32_tiny then Fin 0
                 else Fin q
      | PInf \<Rightarrow> PInf | NInf \<Rightarrow> NInf | NaN \<Rightarrow> NaN)"

definition slice :: "'a list \<Rightarrow> nat \<Rightarrow> nat \<Rightarrow> 'a list" where
  "slice xs a b = take (b - a) (drop a xs)"

definition write_at :: "'a list \<Rightarrow> nat \<Rightarrow> 'a list \<Rightarrow> 'a list" where
  "write_at xs a ys = take a xs @ ys @ drop (a + length ys) xs"

text \<open>
  Lines 161 to 176 for one chunk.  Element \<open>(b, l, s)\<close> of a cube lies at index
  \<open>b * nlines * nsamples + l * nsamples + s\<close> of its file, so the rows
  \<open>chunk_start..chunk_end\<close> of a band are one contiguous range; \<open>base\<close> is the index at
  which the band starts.  Both maps are views of the files: a read sees what has been
  written.
\<close>

definition process_chunk ::
  "fs \<Rightarrow> string \<Rightarrow> string \<Rightarrow> nat \<Rightarrow> nat \<Rightarrow> fval \<Rightarrow> nat \<Rightarrow> nat \<Rightarrow> fs" where
  "process_chunk fs0 input_file output_file base nsamples factor chunk_start chunk_end =
     (let chunk = slice (floats_of fs0 input_file)
                    (base + chunk_start * nsamples) (base + chunk_end * nsamples);
          corrected_chunk = map (\<lambda>x. clip01 (fmul x (cast32 factor))) chunk
      in fs0(output_file \<mapsto>
               Floats (write_at (floats_of fs0 output_file) (base + chunk_start * nsamples)
                         corrected_chunk)))"

text \<open>\<open>for chunk_start in range(0, nlines, chunk_size)\<close> for a positive step.\<close>

function chunk_loop ::
  "fs \<Rightarrow> string \<Rightarrow> string \<Rightarrow> nat \<Rightarrow> nat \<Rightarrow> nat \<Rightarrow> fval \<Rightarrow> nat \<Rightarrow> nat \<Rightarrow> fs" where
  "chunk_loop fs0 input_file output_file base nlines nsamples factor chunk_size chunk_start =
     (if chunk_size = 0 \<or> nlines \<le> chunk_start then fs0
      else chunk_loop
             (process_chunk fs0 input_file output_file base nsamples factor chunk_start
                (min (chunk_start + chunk_size) nlines))
             input_file output_file base nlines nsamples factor chunk_size
             (chunk_start + chunk_size))"
  by pat_completeness auto
termination
  by (relation "measure (\<lambda>(fs0, i, out, base, nlines, ns, f, chunk_size, chunk_start).
                           nlines - chunk_start)") auto

declare chunk_loop.simps [simp del]

text \<open>The chunks of one band: a zero step makes \<open>range\<close> raise, a negative one gives no
  chunk.\<close>

definition process_band ::
  "fs \<Rightarrow> string \<Rightarrow> string \<Rightarrow> nat \<Rightarrow> nat \<Rightarrow> fval \<Rightarrow> int \<Rightarrow> nat \<Rightarrow> fs \<times> (error + unit)" where
  "process_band fs0 input_file output_file nlines nsamples factor chunk_size band =
     (if chunk_size = 0 then (fs0, Inl (ValueError ''range() arg 3 must not be zero''))
      else if chunk_size < 0 then (fs0, Inr ())
      else (chunk_loop fs0 input_file output_file (band * nlines * nsamples) nlines nsamples
              factor (nat chunk_size) 0, Inr ()))"

text \<open>\<open>for band in range(nbands)\<close>, over the bands still to do.\<close>

fun band_loop ::
  "fs \<Rightarrow> string \<Rightarrow> string \<Rightarrow> nat \<Rightarrow> nat \<Rightarrow> hvalue option \<Rightarrow> int \<Rightarrow> nat list
   \<Rightarrow> fs \<times> (error + unit)" where
  "band_loop fs0 input_file output_file nlines nsamples wavelengths chunk_size [] =
     (fs0, Inr ())"
| "band_loop fs0 input_file output_file nlines nsamples wavelengths chunk_size (band # bands) =
     (case correction_factor wavelengths band of
        Inl e \<Rightarrow> (fs0, Inl e)
      | Inr factor \<Rightarrow>
          (case process_band fs0 input_file output_file nlines nsamples factor chunk_size band of
             (fs1, Inl e) \<Rightarrow> (fs1, Inl e)
           | (fs1, Inr _) \<Rightarrow>
               band_loop fs1 input_file output_file nlines nsamples wavelengths chunk_size
                 bands))"

subsection \<open>Lines 178 to 207: the output header\<close>

abbreviation (input) nl :: string where
  "nl \<equiv> [CHR 0x0A]"

text \<open>Lines 183 to 192.\<close>

definition fixed_fields :: "hvalue \<Rightarrow> hvalue \<Rightarrow> hvalue \<Rightarrow> builtins \<Rightarrow> string" where
  "fixed_fields nsamples nlines nbands bi =
     ''ENVI'' @ nl
     @ ''description = {Radiometrically corrected reflectance data}'' @ nl
     @ ''samples = '' @ py_str bi nsamples @ nl
     @ ''lines = '' @ py_str bi nlines @ nl
     @ ''bands = '' @ py_str bi nbands @ nl
     @ ''header offset = 0'' @ nl
     @ ''file type = ENVI Standard'' @ nl
     @ ''data type = 4'' @ nl
     @ ''interleave = bsq'' @ nl
     @ ''byte order = 0'' @ nl"

text \<open>Lines 195 to 198: the text written, and the error when formatting with \<open>0.6f\<close>
  fails (the opening line has been written by then).\<close>

definition wavelength_block :: "hvalue option \<Rightarrow> string \<times> error option" where
  "wavelength_block wavelengths =
     (case wavelengths of
        None \<Rightarrow> ([], None)
      | Some v \<Rightarrow>
          if \<not> truthy v then ([], None)
          else (case v of
                  FloatList ws \<Rightarrow>
                    (''wavelength = {'' @ nl
                     @ join ('','' @ nl) (map (\<lambda>w. '' '' @ format6 w) ws) @ ''}'' @ nl, None)
                | Str _ \<Rightarrow> (''wavelength = {'' @ nl, Some (ValueError ''format''))
                | StrList _ \<Rightarrow> (''wavelength = {'' @ nl, Some (ValueError ''format''))
                | IntV _ \<Rightarrow> (''wavelength = {'' @ nl, Some TypeError)))"

text \<open>Lines 200 to 207 for one key.\<close>

definition copy_field :: "builtins \<Rightarrow> header_map \<Rightarrow> string \<Rightarrow> string" where
  "copy_field bi rad_header k =
     (case rad_header k of None \<Rightarrow> [] | Some v \<Rightarrow> k @ '' = '' @ py_str bi v @ nl)"

definition header_text ::
  "builtins \<Rightarrow> hvalue \<Rightarrow> hvalue \<Rightarrow> hvalue \<Rightarrow> hvalue option \<Rightarrow> header_map
   \<Rightarrow> string \<times> error option" where
  "header_text bi nsamples nlines nbands wavelengths rad_header =
     (case wavelength_block wavelengths of
        (w, Some e) \<Rightarrow> (fixed_fields nsamples nlines nbands bi @ w, Some e)
      | (w, None) \<Rightarrow>
          (fixed_fields nsamples nlines nbands bi @ w
           @ copy_field bi rad_header ''wavelength units''
           @ copy_field bi rad_header ''acquisition date''
           @ copy_field bi rad_header ''sensor type'', None))"

subsection \<open>\<open>apply_enhanced_radiometric_correction\<close>\<close>

text \<open>Lines 112 to 118 and 144 to 176: the output cube is created, the input cube is
  opened, and the bands are processed.\<close>

definition process_cube ::
  "fs \<Rightarrow> string \<Rightarrow> string \<Rightarrow> hvalue \<Rightarrow> hvalue \<Rightarrow> hvalue \<Rightarrow> hvalue option \<Rightarrow> int
   \<Rightarrow> fs \<times> (error + unit)" where
  "process_cube fs0 input_file output_file nbands nlines nsamples wavelengths chunk_size =
     (case memmap_create fs0 output_file nbands nlines nsamples of
        (fs1, Inl e) \<Rightarrow> (fs1, Inl e)
      | (fs1, Inr (b, l, s)) \<Rightarrow>
          (case memmap_open fs1 input_file (b * l * s) of
             Inl e \<Rightarrow> (fs1, Inl e)
           | Inr _ \<Rightarrow>
               band_loop fs1 input_file output_file l s wavelengths chunk_size [0..<b]))"

text \<open>Lines 178 to 207: the header file holds what was written before an error.\<close>

definition write_header ::
  "builtins \<Rightarrow> fs \<Rightarrow> string \<Rightarrow> hvalue \<Rightarrow> hvalue \<Rightarrow> hvalue \<Rightarrow> hvalue option \<Rightarrow> header_map
   \<Rightarrow> fs \<times> (error + unit)" where
  "write_header bi fs0 output_header nsamples nlines nbands wavelengths rad_header =
     (case header_text bi nsamples nlines nbands wavelengths rad_header of
        (txt, Some e) \<Rightarrow> (fs0(output_header \<mapsto> Text txt), Inl e)
      | (txt, None) \<Rightarrow> (fs0(output_header \<mapsto> Text txt), Inr ()))"

text \<open>
  Everything after the two headers have been read.  The result is the file system as the
  run leaves it, and either the error raised or the returned output path together with
  the value that the local \<open>radiance_scale\<close> has at the end (computing it cannot fail).
\<close>

definition correct_cube ::
  "builtins \<Rightarrow> fs \<Rightarrow> string \<Rightarrow> header_map \<Rightarrow> header_map \<Rightarrow> int
   \<Rightarrow> fs \<times> (error + string \<times> fval)" where
  "correct_cube bi fs0 input_file refl_header rad_header chunk_size =
     (case dimension_mismatch refl_header rad_header of
        Inl e \<Rightarrow> (fs0, Inl e)
      | Inr True \<Rightarrow> (fs0, Inl mismatch_error)
      | Inr False \<Rightarrow>
          (let nbands = the (refl_header ''bands'');
               nlines = the (refl_header ''lines'');
               nsamples = the (refl_header ''samples'');
               wavelengths = get_wavelengths refl_header rad_header;
               output_file = replace ''reflectance'' ''radcorr'' input_file
           in case report_wavelengths wavelengths of
                Inl e \<Rightarrow> (fs0, Inl e)
              | Inr _ \<Rightarrow>
                  (case process_cube fs0 input_file output_file nbands nlines nsamples
                          wavelengths chunk_size of
                     (fs2, Inl e) \<Rightarrow> (fs2, Inl e)
                   | (fs2, Inr _) \<Rightarrow>
                       (case write_header bi fs2 (output_file @ ''.hdr'') nsamples nlines
                               nbands wavelengths rad_header of
                          (fs3, Inl e) \<Rightarrow> (fs3, Inl e)
                        | (fs3, Inr _) \<Rightarrow>
                            (fs3, Inr (output_file, radiance_scale bi rad_header))))))"

definition apply_enhanced_radiometric_correction ::
  "builtins \<Rightarrow> fs \<Rightarrow> files \<Rightarrow> files \<Rightarrow> int \<Rightarrow> fs \<times> (error + string \<times> fval)" where
  "apply_enhanced_radiometric_correction bi fs0 reflectance_files radiance_files chunk_size =
     (case read_header fs0 (header reflectance_files) of
        Inl e \<Rightarrow> (fs0, Inl e)
      | Inr refl_header \<Rightarrow>
          (case read_header fs0 (header radiance_files) of
             Inl e \<Rightarrow> (fs0, Inl e)
           | Inr rad_header \<Rightarrow>
               correct_cube bi fs0 (data reflectance_files) refl_header rad_header chunk_size))"

section \<open>Predicates used in the properties\<close>



text \<open>A line that, read outside a list, opens a multi-line list: it has an \<open>=\<close>, a
  non-empty key, and a value with \<open>{\<close> and without \<open>}\<close>.\<close>

definition opens_list :: "string \<Rightarrow> bool" where
  "opens_list raw =
     (let line = strip raw;
          key = lower (strip (fst (split_first CHR ''='' line)));
          v = strip (snd (split_first CHR ''='' line))
      in CHR ''='' \<in> set line \<and> key \<noteq> [] \<and> CHR ''{'' \<in> set v \<and> CHR ''}'' \<notin> set v)"

text \<open>The value that \<open>float\<close> reads back from the rendering with six decimals.\<close>

definition round6 :: "fval \<Rightarrow> fval" where
  "round6 v =
     (case v of
        Fin q \<Rightarrow> Fin ((if q < 0 then - 1 else 1) * of_nat (micro q) / 1000000)
      | PInf \<Rightarrow> PInf | NInf \<Rightarrow> NInf | NaN \<Rightarrow> NaN)"

definition no_newline :: "string \<Rightarrow> bool" where
  "no_newline s = (CHR 0x0A \<notin> set s \<and> CHR 0x0D \<notin> set s)"

text \<open>A text value as \<open>read_header\<close> stores it: trimmed, on one line, without \<open>{\<close>.\<close>

definition wf_text :: "string \<Rightarrow> bool" where
  "wf_text v = (strip v = v \<and> CHR ''{'' \<notin> set v \<and> no_newline v)"

definition text_field :: "hvalue option \<Rightarrow> bool" where
  "text_field f = (case f of None \<Rightarrow> True | Some (Str v) \<Rightarrow> wf_text v | Some _ \<Rightarrow> False)"

text \<open>The fields that the output header is expected to give when it is read back.\<close>

definition copied :: "header_map \<Rightarrow> string \<Rightarrow> header_map \<Rightarrow> header_map" where
  "copied rad_header k h = (case rad_header k of None \<Rightarrow> h | Some v \<Rightarrow> h(k \<mapsto> v))"

definition reparsed_header :: "int \<Rightarrow> int \<Rightarrow> int \<Rightarrow> fval list \<Rightarrow> header_map \<Rightarrow> header_map" where
  "reparsed_header nsamples nlines nbands ws rad_header =
     copied rad_header ''sensor type''
       (copied rad_header ''acquisition date''
          (copied rad_header ''wavelength units''
             ((if ws = [] then id else (\<lambda>h. h(''wavelength'' \<mapsto> FloatList (map round6 ws))))
                [''description'' \<mapsto> Str ''Radiometrically corrected reflectance data'',
                 ''samples'' \<mapsto> IntV nsamples,
                 ''lines'' \<mapsto> IntV nlines,
                 ''bands'' \<mapsto> IntV nbands,
                 ''header offset'' \<mapsto> Str ''0'',
                 ''file type'' \<mapsto> Str ''ENVI Standard'',
                 ''data type'' \<mapsto> IntV 4,
                 ''interleave'' \<mapsto> Str ''bsq'',
                 ''byte order'' \<mapsto> Str ''0''])))"

section \<open>Example inputs\<close>

text \<open>Sample renderings for the two built-ins.\<close>

definition example_builtins :: builtins where
  "example_builtins = \<lparr>float_str = format6, str_repr = (\<lambda>s. CHR 0x27 # s @ [CHR 0x27])\<rparr>"

definition header_2x3x2 :: string where
  "header_2x3x2 = ''ENVI'' @ nl @ ''samples = 2'' @ nl @ ''lines = 3'' @ nl @ ''bands = 2'' @ nl"

definition header_5x3x2 :: string where
  "header_5x3x2 = ''ENVI'' @ nl @ ''samples = 5'' @ nl @ ''lines = 3'' @ nl @ ''bands = 2'' @ nl"

text \<open>A reflectance cube whose two headers disagree on \<open>samples\<close>.\<close>

definition mismatch_fs :: fs where
  "mismatch_fs =
     [''a_reflectance.dat'' \<mapsto> Floats (replicate 30 (Fin (1 / 2))),
      ''a_reflectance.dat.hdr'' \<mapsto> Text header_5x3x2,
      ''a_radiance.hdr'' \<mapsto> Text header_2x3x2]"

definition mismatch_reflectance_files :: files where
  "mismatch_reflectance_files = \<lparr>data = ''a_reflectance.dat'', header = ''a_reflectance.dat.hdr''\<rparr>"

definition mismatch_radiance_files :: files where
  "mismatch_radiance_files = \<lparr>data = ''a_radiance.dat'', header = ''a_radiance.hdr''\<rparr>"

text \<open>Two radiance headers that differ in the description only.\<close>

definition rad_header_scaled :: header_map where
  "rad_header_scaled =
     [''samples'' \<mapsto> IntV 1, ''lines'' \<mapsto> IntV 1, ''bands'' \<mapsto> IntV 1,
      ''description'' \<mapsto> Str ''Radiance [mW/(cm^2*sr*nm)]*1234]'']"

definition rad_header_plain :: header_map where
  "rad_header_plain = rad_header_scaled(''description'' \<mapsto> Str ''no scale here'')"

definition one_pixel_fs :: fs where
  "one_pixel_fs = [''p_reflectance.dat'' \<mapsto> Floats [Fin (3 / 4)]]"

text \<open>A cube of two bands, three lines and two samples with the wavelengths 500 and
  1500.\<close>

definition sample_rad_header :: string where
  "sample_rad_header =
     header_2x3x2 @ ''wavelength = {'' @ nl @ '' 500.000000,'' @ nl @ '' 1500.000000}'' @ nl"

definition sample_cube :: "fval list" where
  "sample_cube =
     [Fin 0, Fin (1 / 10), Fin (2 / 10), Fin (3 / 10), Fin (4 / 10), Fin (5 / 10),
      Fin (6 / 10), Fin (7 / 10), Fin (8 / 10), Fin (9 / 10), Fin 1, Fin (11 / 10)]"

definition sample_fs :: fs where
  "sample_fs =
     [''s_reflectance.dat'' \<mapsto> Floats sample_cube,
      ''s_reflectance.dat.hdr'' \<mapsto> Text header_2x3x2,
      ''s_radiance.hdr'' \<mapsto> Text sample_rad_header]"

definition sample_reflectance_files :: files where
  "sample_reflectance_files = \<lparr>data = ''s_reflectance.dat'', header = ''s_reflectance.dat.hdr''\<rparr>"

definition sample_radiance_files :: files where
  "sample_radiance_files = \<lparr>data = ''s_radiance.dat'', header = ''s_radiance.hdr''\<rparr>"

text \<open>A cube of one pixel whose radiance header gives the wavelength as \<open>nan\<close>.\<close>

definition header_1x1x1 :: string where
  "header_1x1x1 = ''ENVI'' @ nl @ ''samples = 1'' @ nl @ ''lines = 1'' @ nl @ ''bands = 1'' @ nl"




text \<open>A cube whose path does not contain \<open>reflectance\<close>.\<close>

definition plain_fs :: fs where
  "plain_fs =
     [''cube.dat'' \<mapsto> Floats [Fin (1 / 2)],
      ''cube.hdr'' \<mapsto> Text header_1x1x1,
      ''radiance.hdr'' \<mapsto> Text header_1x1x1]"

definition plain_reflectance_files :: files where
  "plain_reflectance_files = \<lparr>data = ''cube.dat'', header = ''cube.hdr''\<rparr>"

definition plain_radiance_files :: files where
  "plain_radiance_files = \<lparr>data = ''radiance.dat'', header = ''radiance.hdr''\<rparr>"

text \<open>The header maps of the sample cube.\<close>

definition sample_refl_map :: header_map where
  "sample_refl_map = [''samples'' \<mapsto> IntV 2, ''lines'' \<mapsto> IntV 3, ''bands'' \<mapsto> IntV 2]"

definition sample_rad_map :: header_map where
  "sample_rad_map = sample_refl_map(''wavelength'' \<mapsto> FloatList [Fin 500, Fin 1500])"

section \<open>Properties\<close>

subsection \<open>Evaluating the range tests\<close>

text \<open>The range tests of \<open>to_double\<close> and \<open>cast32\<close> on numerator and denominator, with the
  bounds written out, so that they evaluate without computing the powers.\<close>

lemma frac_le_inverse:
  fixes x y m :: rat
  assumes "0 < y" "0 < m"
  shows "x / y \<le> 1 / m \<longleftrightarrow> x * m \<le> y"
  using assms by (simp add: field_simps)

lemma range_tests:
  fixes q :: rat and L M :: int
  assumes "quotient_of q = (a, b)"
  shows "of_int L \<le> q \<longleftrightarrow> L * b \<le> a"
    and "q \<le> - of_int L \<longleftrightarrow> a \<le> - (L * b)"
    and "0 < M \<Longrightarrow> \<bar>q\<bar> \<le> 1 / of_int M \<longleftrightarrow> \<bar>a\<bar> * M \<le> b"
proof -
  have b: "0 < b" using assms by (rule quotient_of_denom_pos)
  have q: "q = of_int a / of_int b" using assms by (rule quotient_of_div)
  have "of_int L \<le> q \<longleftrightarrow> (of_int (L * b) :: rat) \<le> of_int a"
    unfolding q using b by (simp add: pos_le_divide_eq)
  then show "of_int L \<le> q \<longleftrightarrow> L * b \<le> a"
    by (simp only: of_int_le_iff)
  have "q \<le> - of_int L \<longleftrightarrow> (of_int a :: rat) \<le> of_int (- (L * b))"
    unfolding q using b by (simp add: pos_divide_le_eq)
  then show "q \<le> - of_int L \<longleftrightarrow> a \<le> - (L * b)"
    by (simp only: of_int_le_iff)
  assume M: "0 < M"
  have "\<bar>q\<bar> = of_int \<bar>a\<bar> / of_int b"
    unfolding q using b by simp
  moreover have "(of_int \<bar>a\<bar> :: rat) / of_int b \<le> 1 / of_int M
      \<longleftrightarrow> of_int \<bar>a\<bar> * of_int M \<le> (of_int b :: rat)"
    using b M by (intro frac_le_inverse) simp_all
  ultimately have "\<bar>q\<bar> \<le> 1 / of_int M \<longleftrightarrow> (of_int (\<bar>a\<bar> * M) :: rat) \<le> of_int b"
    by (simp only: of_int_mult)
  then show "\<bar>q\<bar> \<le> 1 / of_int M \<longleftrightarrow> \<bar>a\<bar> * M \<le> b"
    by (simp only: of_int_le_iff)
qed

lemma to_double_code [code]:
  "to_double q =
     (let (a, b) = quotient_of q
      in if 179769313486231580793728971405303415079934132710037826936173778980444968292764750946649017977587207096330286416692887910946555547851940402630657488671505820681908902000708383676273854845817711531764475730270069855571366959622842914819860834936475292719074168444365510704342711559699508093042880177904174497792 * b \<le> a then PInf
         else if a \<le> - (179769313486231580793728971405303415079934132710037826936173778980444968292764750946649017977587207096330286416692887910946555547851940402630657488671505820681908902000708383676273854845817711531764475730270069855571366959622842914819860834936475292719074168444365510704342711559699508093042880177904174497792 * b) then NInf
         else if \<bar>a\<bar> * 404804506614621236704990693437834614099113299528284236713802716054860679135990693783920767402874248990374155728633623822779617474771586953734026799881477019843034848553132722728933815484186432682479535356945490137124014966849385397236206711298319112681620113024717539104666829230461005064372655017292012526615415482186989568 \<le> b then Fin 0
         else Fin q)"
proof -
  obtain a b where ab: "quotient_of q = (a, b)" by (cases "quotient_of q")
  have L: "float64_limit = of_int 179769313486231580793728971405303415079934132710037826936173778980444968292764750946649017977587207096330286416692887910946555547851940402630657488671505820681908902000708383676273854845817711531764475730270069855571366959622842914819860834936475292719074168444365510704342711559699508093042880177904174497792"
    by (simp add: float64_limit_def)
  have T: "float64_tiny = 1 / of_int 404804506614621236704990693437834614099113299528284236713802716054860679135990693783920767402874248990374155728633623822779617474771586953734026799881477019843034848553132722728933815484186432682479535356945490137124014966849385397236206711298319112681620113024717539104666829230461005064372655017292012526615415482186989568"
    by (simp add: float64_tiny_def)
  have 1: "float64_limit \<le> q \<longleftrightarrow> 179769313486231580793728971405303415079934132710037826936173778980444968292764750946649017977587207096330286416692887910946555547851940402630657488671505820681908902000708383676273854845817711531764475730270069855571366959622842914819860834936475292719074168444365510704342711559699508093042880177904174497792 * b \<le> a"
    unfolding L by (rule range_tests(1) [OF ab])
  have 2: "q \<le> - float64_limit \<longleftrightarrow> a \<le> - (179769313486231580793728971405303415079934132710037826936173778980444968292764750946649017977587207096330286416692887910946555547851940402630657488671505820681908902000708383676273854845817711531764475730270069855571366959622842914819860834936475292719074168444365510704342711559699508093042880177904174497792 * b)"
    unfolding L by (rule range_tests(2) [OF ab])
  have 3: "\<bar>q\<bar> \<le> float64_tiny \<longleftrightarrow> \<bar>a\<bar> * 404804506614621236704990693437834614099113299528284236713802716054860679135990693783920767402874248990374155728633623822779617474771586953734026799881477019843034848553132722728933815484186432682479535356945490137124014966849385397236206711298319112681620113024717539104666829230461005064372655017292012526615415482186989568 \<le> b"
    unfolding T by (rule range_tests(3) [OF ab]) simp
  show ?thesis
    unfolding to_double_def 1 2 3 ab Let_def prod.case by (rule refl)
qed

lemma cast32_code [code]:
  "cast32 v =
     (case v of
        Fin q \<Rightarrow>
          (let (a, b) = quotient_of q
           in if 340282356779733661637539395458142568448 * b \<le> a then PInf
              else if a \<le> - (340282356779733661637539395458142568448 * b) then NInf
              else if \<bar>a\<bar> * 1427247692705959881058285969449495136382746624 \<le> b then Fin 0
              else Fin q)
      | PInf \<Rightarrow> PInf | NInf \<Rightarrow> NInf | NaN \<Rightarrow> NaN)"
proof (cases v)
  case (Fin q)
  obtain a b where ab: "quotient_of q = (a, b)" by (cases "quotient_of q")
  have L: "float32_limit = of_int 340282356779733661637539395458142568448"
    by (simp add: float32_limit_def)
  have T: "float32_tiny = 1 / of_int 1427247692705959881058285969449495136382746624"
    by (simp add: float32_tiny_def)
  have 1: "float32_limit \<le> q \<longleftrightarrow> 340282356779733661637539395458142568448 * b \<le> a"
    unfolding L by (rule range_tests(1) [OF ab])
  have 2: "q \<le> - float32_limit \<longleftrightarrow> a \<le> - (340282356779733661637539395458142568448 * b)"
    unfolding L by (rule range_tests(2) [OF ab])
  have 3: "\<bar>q\<bar> \<le> float32_tiny \<longleftrightarrow> \<bar>a\<bar> * 1427247692705959881058285969449495136382746624 \<le> b"
    unfolding T by (rule range_tests(3) [OF ab]) simp
  show ?thesis
    unfolding cast32_def Fin fval.case 1 2 3 ab Let_def prod.case by (rule refl)
qed (simp_all add: cast32_def)

subsection \<open>The band factor and the wavelength table\<close>

lemma wavelength_factor_Fin: "wavelength_factor (Fin w) = Fin (1 + (w - 500) / 1000)"
  by (simp add: wavelength_factor_def fdiv_const_def fsub_def)

text \<open>
  Claim C1.  The factor of a band is \<open>1.0 + (wavelength[b] - 500.0) / 1000.0\<close> when the
  radiance header has a wavelength table and the band index is below its length, and
  \<open>1.0\<close> when there is no table or the index is at or beyond its length; it is
  \<open>1.0\<close> at 500 and \<open>2.0\<close> at 1500.
\<close>

theorem correction_factor_formula:
  "(rad_header ''wavelength'' = Some (FloatList ws) \<and> band < length ws \<longrightarrow>
      correction_factor (get_wavelengths refl_header rad_header) band
        = Inr (fadd (Fin 1) (fdiv_const (fsub (ws ! band) (Fin 500)) 1000)))
   \<and> (rad_header ''wavelength'' = Some (FloatList ws) \<and> length ws \<le> band \<longrightarrow>
      correction_factor (get_wavelengths refl_header rad_header) band = Inr (Fin 1))
   \<and> (rad_header ''wavelength'' = None \<longrightarrow>
      correction_factor (get_wavelengths refl_header rad_header) band = Inr (Fin 1))
   \<and> (rad_header ''wavelength'' = Some (FloatList ws) \<and> band < length ws \<and> ws ! band = Fin w \<longrightarrow>
      correction_factor (get_wavelengths refl_header rad_header) band
        = Inr (Fin (1 + (w - 500) / 1000)))
   \<and> (rad_header ''wavelength'' = Some (FloatList ws) \<and> band < length ws \<and> ws ! band = Fin 500 \<longrightarrow>
      correction_factor (get_wavelengths refl_header rad_header) band = Inr (Fin 1))
   \<and> (rad_header ''wavelength'' = Some (FloatList ws) \<and> band < length ws \<and> ws ! band = Fin 1500 \<longrightarrow>
      correction_factor (get_wavelengths refl_header rad_header) band = Inr (Fin 2))"
  by (auto simp: correction_factor_def get_wavelengths_def wavelength_factor_def
        fdiv_const_def fsub_def)

text \<open>The formula at a table of two wavelengths, and without a table.\<close>

theorem correction_factor_formula_witness:
  "correction_factor (get_wavelengths Map.empty [''wavelength'' \<mapsto> FloatList [Fin 500, Fin 1500]]) 0
     = Inr (Fin 1)
   \<and> correction_factor (get_wavelengths Map.empty [''wavelength'' \<mapsto> FloatList [Fin 500, Fin 1500]]) 1
     = Inr (Fin 2)
   \<and> correction_factor (get_wavelengths Map.empty [''wavelength'' \<mapsto> FloatList [Fin 500, Fin 1500]]) 2
     = Inr (Fin 1)
   \<and> correction_factor (get_wavelengths Map.empty Map.empty) 0 = Inr (Fin 1)"
  using correction_factor_formula [of "[''wavelength'' \<mapsto> FloatList [Fin 500, Fin 1500]]"
          "[Fin 500, Fin 1500]" 0 Map.empty 500]
        correction_factor_formula [of "[''wavelength'' \<mapsto> FloatList [Fin 500, Fin 1500]]"
          "[Fin 500, Fin 1500]" 1 Map.empty 1500]
        correction_factor_formula [of "[''wavelength'' \<mapsto> FloatList [Fin 500, Fin 1500]]"
          "[Fin 500, Fin 1500]" 2 Map.empty 0]
        correction_factor_formula [of Map.empty "[]" 0 Map.empty 0]
  by (simp add: fdiv_const_def fsub_def)

subsection \<open>The dimension check\<close>

text \<open>
  Claim C4.  When the two parsed headers disagree on \<open>samples\<close>, \<open>lines\<close> or
  \<open>bands\<close>, the run ends with the dimension-mismatch error and the file system is
  the one it started with: no output cube and no output header exist that did not
  exist before.
\<close>

theorem dimension_mismatch_no_output:
  assumes "read_header fs0 (header reflectance_files) = Inr refl_header"
    and "read_header fs0 (header radiance_files) = Inr rad_header"
    and "refl_header ''samples'' = Some s1" and "rad_header ''samples'' = Some s2"
    and "refl_header ''lines'' = Some l1" and "rad_header ''lines'' = Some l2"
    and "refl_header ''bands'' = Some b1" and "rad_header ''bands'' = Some b2"
    and "\<not> py_eq s1 s2 \<or> \<not> py_eq l1 l2 \<or> \<not> py_eq b1 b2"
  shows "apply_enhanced_radiometric_correction bi fs0 reflectance_files radiance_files
           chunk_size = (fs0, Inl mismatch_error)"
proof -
  have k: "differs refl_header rad_header ''samples'' = Inr (\<not> py_eq s1 s2)"
          "differs refl_header rad_header ''lines'' = Inr (\<not> py_eq l1 l2)"
          "differs refl_header rad_header ''bands'' = Inr (\<not> py_eq b1 b2)"
    using assms(3-8) by (simp_all add: differs_def lookup_def)
  have "dimension_mismatch refl_header rad_header = Inr True"
    unfolding dimension_mismatch_def k using assms(9)
    by (cases "py_eq s1 s2"; cases "py_eq l1 l2"; simp)
  then show ?thesis
    using assms(1,2)
    by (simp add: apply_enhanced_radiometric_correction_def correct_cube_def)
qed

text \<open>
  Two header files that differ in \<open>samples\<close> (5 and 2): the run fails and leaves the
  files as they were.
\<close>

theorem dimension_mismatch_no_output_witness:
  "apply_enhanced_radiometric_correction example_builtins mismatch_fs
     mismatch_reflectance_files mismatch_radiance_files 500 = (mismatch_fs, Inl mismatch_error)"
proof -
  have "case read_header mismatch_fs (header mismatch_reflectance_files) of
          Inl e \<Rightarrow> False
        | Inr h \<Rightarrow> h ''samples'' = Some (IntV 5) \<and> h ''lines'' = Some (IntV 3)
                   \<and> h ''bands'' = Some (IntV 2)"
    by code_simp
  then obtain rh where rh: "read_header mismatch_fs (header mismatch_reflectance_files) = Inr rh"
      "rh ''samples'' = Some (IntV 5)" "rh ''lines'' = Some (IntV 3)" "rh ''bands'' = Some (IntV 2)"
    by (auto split: sum.splits)
  have "case read_header mismatch_fs (header mismatch_radiance_files) of
          Inl e \<Rightarrow> False
        | Inr h \<Rightarrow> h ''samples'' = Some (IntV 2) \<and> h ''lines'' = Some (IntV 3)
                   \<and> h ''bands'' = Some (IntV 2)"
    by code_simp
  then obtain dh where dh: "read_header mismatch_fs (header mismatch_radiance_files) = Inr dh"
      "dh ''samples'' = Some (IntV 2)" "dh ''lines'' = Some (IntV 3)" "dh ''bands'' = Some (IntV 2)"
    by (auto split: sum.splits)
  have ne: "\<not> py_eq (IntV 5) (IntV 2) \<or> \<not> py_eq (IntV 3) (IntV 3) \<or> \<not> py_eq (IntV 2) (IntV 2)"
    by simp
  show ?thesis
    by (rule dimension_mismatch_no_output [OF rh(1) dh(1) rh(2) dh(2) rh(3) dh(3) rh(4) dh(4) ne])
qed

subsection \<open>The radiance scale factor\<close>

lemma differs_cong_keys:
  "rad1 k = rad2 k \<Longrightarrow> differs refl_header rad1 k = differs refl_header rad2 k"
  by (auto simp: differs_def lookup_def split: option.splits)

lemma dm_cong:
  assumes "\<forall>k. k \<noteq> ''description'' \<longrightarrow> rad1 k = rad2 k"
  shows "dimension_mismatch refl_header rad1 = dimension_mismatch refl_header rad2"
proof -
  have d: "differs refl_header rad1 ''samples'' = differs refl_header rad2 ''samples''"
          "differs refl_header rad1 ''lines'' = differs refl_header rad2 ''lines''"
          "differs refl_header rad1 ''bands'' = differs refl_header rad2 ''bands''"
    using assms by (auto intro!: differs_cong_keys)
  show ?thesis
    unfolding dimension_mismatch_def d by (rule refl)
qed

lemma wh_cong:
  assumes "\<forall>k. k \<noteq> ''description'' \<longrightarrow> rad1 k = rad2 k"
  shows "write_header bi f p ns nls nb wl rad1 = write_header bi f p ns nls nb wl rad2"
proof -
  have c: "copy_field bi rad1 ''wavelength units'' = copy_field bi rad2 ''wavelength units''"
          "copy_field bi rad1 ''acquisition date'' = copy_field bi rad2 ''acquisition date''"
          "copy_field bi rad1 ''sensor type'' = copy_field bi rad2 ''sensor type''"
    using assms by (simp_all add: copy_field_def)
  show ?thesis
    unfolding write_header_def header_text_def c by (rule refl)
qed

text \<open>
  Claim C10.  Two runs whose radiance headers differ in the \<open>description\<close> entry only
  leave the same file system (the output cube and the output header included) and end
  with the same error or the same output path; only the value of \<open>radiance_scale\<close>
  may differ.
\<close>

theorem description_not_used:
  assumes "\<forall>k. k \<noteq> ''description'' \<longrightarrow> rad1 k = rad2 k"
  shows "fst (correct_cube bi fs0 input_file refl_header rad1 chunk_size)
           = fst (correct_cube bi fs0 input_file refl_header rad2 chunk_size)
         \<and> map_sum id fst (snd (correct_cube bi fs0 input_file refl_header rad1 chunk_size))
           = map_sum id fst (snd (correct_cube bi fs0 input_file refl_header rad2 chunk_size))"
proof -
  note dm = dm_cong [OF assms, of refl_header]
  have w: "get_wavelengths refl_header rad1 = get_wavelengths refl_header rad2"
    using assms by (simp add: get_wavelengths_def)
  note wh = wh_cong [OF assms]
  show ?thesis
  proof (cases "dimension_mismatch refl_header rad2")
    case (Inl e)
    then show ?thesis by (simp add: correct_cube_def dm)
  next
    case (Inr m)
    show ?thesis
    proof (cases m)
      case True
      with Inr show ?thesis by (simp add: correct_cube_def dm)
    next
      case False
      show ?thesis
      proof (cases "report_wavelengths (get_wavelengths refl_header rad2)")
        case (Inl e)
        with Inr False show ?thesis by (simp add: correct_cube_def dm w)
      next
        case rw: (Inr u)
        obtain fs2 r where pc: "process_cube fs0 input_file
            (replace ''reflectance'' ''radcorr'' input_file) (the (refl_header ''bands''))
            (the (refl_header ''lines'')) (the (refl_header ''samples''))
            (get_wavelengths refl_header rad2) chunk_size = (fs2, r)"
          by (cases "process_cube fs0 input_file
            (replace ''reflectance'' ''radcorr'' input_file) (the (refl_header ''bands''))
            (the (refl_header ''lines'')) (the (refl_header ''samples''))
            (get_wavelengths refl_header rad2) chunk_size") auto
        show ?thesis
        proof (cases r)
          case (Inl e)
          with Inr False rw pc show ?thesis by (simp add: correct_cube_def dm w)
        next
          case r: (Inr u2)
          obtain fs3 r3 where whr: "write_header bi fs2
              (replace ''reflectance'' ''radcorr'' input_file @ ''.hdr'')
              (the (refl_header ''samples'')) (the (refl_header ''lines''))
              (the (refl_header ''bands'')) (get_wavelengths refl_header rad2) rad2 = (fs3, r3)"
            by (cases "write_header bi fs2
              (replace ''reflectance'' ''radcorr'' input_file @ ''.hdr'')
              (the (refl_header ''samples'')) (the (refl_header ''lines''))
              (the (refl_header ''bands'')) (get_wavelengths refl_header rad2) rad2") auto
          show ?thesis
            using Inr False rw pc r whr
            by (cases r3) (simp_all add: correct_cube_def dm w wh)
        qed
      qed
    qed
  qed
qed

text \<open>
  Two headers whose descriptions give the scale factors 1234 and 1000: the files
  written are the same.
\<close>

theorem description_not_used_witness:
  "radiance_scale example_builtins rad_header_scaled = Fin 1234
   \<and> radiance_scale example_builtins rad_header_plain = Fin 1000
   \<and> fst (correct_cube example_builtins one_pixel_fs ''p_reflectance.dat'' rad_header_scaled
            rad_header_scaled 500)
     = fst (correct_cube example_builtins one_pixel_fs ''p_reflectance.dat'' rad_header_scaled
              rad_header_plain 500)"
proof -
  have a: "\<forall>k. k \<noteq> ''description'' \<longrightarrow> rad_header_scaled k = rad_header_plain k"
    by (simp add: rad_header_plain_def)
  have s1: "radiance_scale example_builtins rad_header_scaled = Fin 1234" by code_simp
  have s2: "radiance_scale example_builtins rad_header_plain = Fin 1000" by code_simp
  show ?thesis
    using description_not_used [OF a, of example_builtins one_pixel_fs "''p_reflectance.dat''"
            rad_header_scaled 500] s1 s2
    by simp
qed

subsection \<open>Chunked processing\<close>

lemma length_slice: "b \<le> length xs \<Longrightarrow> length (slice xs a b) = b - a"
  by (simp add: slice_def)

lemma slice_append: "a \<le> b \<Longrightarrow> b \<le> c \<Longrightarrow> slice xs a b @ slice xs b c = slice xs a c"
proof -
  assume ab: "a \<le> b" and bc: "b \<le> c"
  have "take (c - a) (drop a xs) = take ((b - a) + (c - b)) (drop a xs)"
    using ab bc by simp
  also have "\<dots> = take (b - a) (drop a xs) @ take (c - b) (drop (b - a) (drop a xs))"
    by (rule take_add)
  also have "drop (b - a) (drop a xs) = drop b xs"
    using ab by simp
  finally show ?thesis
    by (simp add: slice_def)
qed

lemma slice_empty: "b \<le> a \<Longrightarrow> slice xs a b = []"
  by (simp add: slice_def)

lemma write_at_Nil: "write_at ys a [] = ys"
  by (simp add: write_at_def)

lemma length_write_at: "a + length m \<le> length ys \<Longrightarrow> length (write_at ys a m) = length ys"
  by (simp add: write_at_def)

lemma write_at_write_at:
  "a + length m1 \<le> length ys \<Longrightarrow>
   write_at (write_at ys a m1) (a + length m1) m2 = write_at ys a (m1 @ m2)"
  by (simp add: write_at_def add.commute add.left_commute)

lemma slice_write_at_after:
  "a + length m \<le> length ys \<Longrightarrow> a + length m \<le> b \<Longrightarrow>
   slice (write_at ys a m) b c = slice ys b c"
proof -
  assume le: "a + length m \<le> length ys" and ab: "a + length m \<le> b"
  have "drop b (write_at ys a m) = drop (b - (a + length m)) (drop (a + length m) ys)"
    using le ab by (simp add: write_at_def)
  also have "\<dots> = drop b ys"
    using ab by simp
  finally show ?thesis
    by (simp add: slice_def)
qed

lemma floats_of_upd:
  "floats_of (fs0(p \<mapsto> Floats ys)) q = (if q = p then ys else floats_of fs0 q)"
  by (simp add: floats_of_def)

text \<open>
  The chunk loop of one band, from any start row: the rows from \<open>chunk_start\<close> to
  the end of the band are replaced in the output file by the clipped products of the
  same rows of the input file, whatever the chunk size.  This also holds when both
  paths name the same file.
\<close>

lemma chunk_loop_result:
  assumes "0 < chunk_size" and "fs0 output_file = Some (Floats ys)"
    and "base + nlines * nsamples \<le> length ys"
    and "base + nlines * nsamples \<le> length (floats_of fs0 input_file)"
  shows "chunk_loop fs0 input_file output_file base nlines nsamples factor chunk_size chunk_start
           = fs0(output_file \<mapsto> Floats (write_at ys (base + chunk_start * nsamples)
               (map (\<lambda>x. clip01 (fmul x (cast32 factor)))
                  (slice (floats_of fs0 input_file) (base + chunk_start * nsamples)
                     (base + nlines * nsamples)))))"
  using assms
proof (induction fs0 input_file output_file base nlines nsamples factor chunk_size chunk_start
       arbitrary: ys rule: chunk_loop.induct)
  case (1 fs0 input_file output_file base nlines nsamples factor chunk_size chunk_start)
  let ?g = "\<lambda>x. clip01 (fmul x (cast32 factor))"
  define xs where "xs = floats_of fs0 input_file"
  define a where "a = base + chunk_start * nsamples"
  define c where "c = base + nlines * nsamples"
  have cys: "c \<le> length ys" and cxs: "c \<le> length xs"
    using "1.prems"(3,4) by (simp_all add: c_def xs_def)
  show ?case
  proof (cases "nlines \<le> chunk_start")
    case True
    then have "c \<le> a" by (simp add: a_def c_def)
    then have "slice xs a c = []" by (rule slice_empty)
    moreover have "fs0(output_file \<mapsto> Floats ys) = fs0"
      using "1.prems"(2) by (simp add: fun_upd_idem)
    moreover have "chunk_loop fs0 input_file output_file base nlines nsamples factor chunk_size
                     chunk_start = fs0"
      using True by (subst chunk_loop.simps) simp
    ultimately show ?thesis
      by (simp add: write_at_Nil a_def c_def xs_def)
  next
    case False
    define e where "e = min (chunk_start + chunk_size) nlines"
    define b where "b = base + e * nsamples"
    define m1 where "m1 = map ?g (slice xs a b)"
    define ys1 where "ys1 = write_at ys a m1"
    define fs1 where "fs1 = fs0(output_file \<mapsto> Floats ys1)"
    have pc: "process_chunk fs0 input_file output_file base nsamples factor chunk_start
                (min (chunk_start + chunk_size) nlines) = fs1"
      using "1.prems"(2)
      by (simp add: process_chunk_def floats_of_def fs1_def ys1_def m1_def a_def b_def e_def
            xs_def)
    have ab: "a \<le> b"
      using False "1.prems"(1) by (simp add: a_def b_def e_def)
    have bc: "b \<le> c"
      by (simp add: b_def c_def e_def)
    have blen: "b \<le> length xs"
      using bc cxs by (rule order_trans)
    have len1: "length m1 = b - a"
      using length_slice [OF blen, of a] by (simp add: m1_def)
    have next_a: "a + length m1 = b"
      using len1 ab by simp
    have fit: "a + length m1 \<le> length ys"
      using next_a bc cys by simp
    have lys1: "length ys1 = length ys"
      unfolding ys1_def using fit by (rule length_write_at)
    have xs1: "slice (floats_of fs1 input_file) b c = slice xs b c"
    proof (cases "input_file = output_file")
      case True
      then have "xs = ys" using "1.prems"(2) by (simp add: floats_of_def xs_def)
      then show ?thesis
        using True fit next_a slice_write_at_after [of a m1 ys b c]
        by (simp add: floats_of_upd fs1_def ys1_def)
    next
      case False
      then show ?thesis by (simp add: floats_of_upd fs1_def xs_def)
    qed
    have len_in: "c \<le> length (floats_of fs1 input_file)"
      using cys cxs lys1 by (simp add: floats_of_upd fs1_def xs_def)
    have loop: "chunk_loop fs0 input_file output_file base nlines nsamples factor chunk_size
                  chunk_start
                = chunk_loop fs1 input_file output_file base nlines nsamples factor chunk_size
                    (chunk_start + chunk_size)"
      using False "1.prems"(1) pc by (subst chunk_loop.simps) simp
    have ih: "chunk_loop fs1 input_file output_file base nlines nsamples factor chunk_size
                (chunk_start + chunk_size)
              = fs1(output_file \<mapsto> Floats (write_at ys1
                  (base + (chunk_start + chunk_size) * nsamples)
                  (map ?g (slice (floats_of fs1 input_file)
                     (base + (chunk_start + chunk_size) * nsamples) c))))"
      unfolding c_def
    proof (rule "1.IH" [unfolded pc])
      show "\<not> (chunk_size = 0 \<or> nlines \<le> chunk_start)"
        using False "1.prems"(1) by simp
      show "0 < chunk_size" by (rule "1.prems"(1))
      show "fs1 output_file = Some (Floats ys1)" by (simp add: fs1_def)
      show "base + nlines * nsamples \<le> length ys1"
        using cys lys1 by (simp add: c_def)
      show "base + nlines * nsamples \<le> length (floats_of fs1 input_file)"
        using len_in by (simp add: c_def)
    qed
    show ?thesis
    proof (cases "nlines \<le> chunk_start + chunk_size")
      case True
      then have e: "e = nlines" by (simp add: e_def)
      then have bc_eq: "b = c" by (simp add: b_def c_def)
      have "c \<le> base + (chunk_start + chunk_size) * nsamples"
        using True by (simp add: c_def)
      then have "slice (floats_of fs1 input_file)
                   (base + (chunk_start + chunk_size) * nsamples) c = []"
        by (rule slice_empty)
      then have "chunk_loop fs0 input_file output_file base nlines nsamples factor chunk_size
                   chunk_start = fs1"
        using loop ih by (simp add: write_at_Nil fs1_def)
      then show ?thesis
        using bc_eq by (simp add: fs1_def ys1_def m1_def a_def c_def xs_def)
    next
      case gt: False
      then have e: "e = chunk_start + chunk_size" by (simp add: e_def)
      then have b_eq: "base + (chunk_start + chunk_size) * nsamples = b" by (simp add: b_def)
      have "write_at ys1 b (map ?g (slice xs b c))
              = write_at ys a (m1 @ map ?g (slice xs b c))"
        using write_at_write_at [OF fit, of "map ?g (slice xs b c)"] next_a
        by (simp add: ys1_def)
      also have "m1 @ map ?g (slice xs b c) = map ?g (slice xs a c)"
        using slice_append [OF ab bc, of xs] by (simp add: m1_def flip: map_append)
      finally have "write_at ys1 b (map ?g (slice xs b c)) = write_at ys a (map ?g (slice xs a c))" .
      then show ?thesis
        using loop ih xs1 by (simp add: b_eq fs1_def a_def c_def xs_def)
    qed
  qed
qed

lemma process_band_result:
  assumes "0 < chunk_size" and "fs0 output_file = Some (Floats ys)"
    and "band * nlines * nsamples + nlines * nsamples \<le> length ys"
    and "band * nlines * nsamples + nlines * nsamples \<le> length (floats_of fs0 input_file)"
  shows "process_band fs0 input_file output_file nlines nsamples factor chunk_size band
           = (fs0(output_file \<mapsto> Floats (write_at ys (band * nlines * nsamples)
               (map (\<lambda>x. clip01 (fmul x (cast32 factor)))
                  (slice (floats_of fs0 input_file) (band * nlines * nsamples)
                     (band * nlines * nsamples + nlines * nsamples))))), Inr ())"
proof -
  have pos: "0 < nat chunk_size" using assms(1) by simp
  show ?thesis
    using assms(1) chunk_loop_result [OF pos assms(2) assms(3) assms(4), of factor 0]
    by (simp add: process_band_def)
qed

lemma band_loop_chunk_size:
  assumes "0 < c1" and "0 < c2" and "fs0 output_file = Some (Floats ys)"
    and "\<forall>band\<in>set bands. band * nlines * nsamples + nlines * nsamples \<le> length ys"
    and "\<forall>band\<in>set bands. band * nlines * nsamples + nlines * nsamples
           \<le> length (floats_of fs0 input_file)"
  shows "band_loop fs0 input_file output_file nlines nsamples wavelengths c1 bands
           = band_loop fs0 input_file output_file nlines nsamples wavelengths c2 bands"
  using assms(3-5)
proof (induction bands arbitrary: fs0 ys)
  case Nil
  show ?case by simp
next
  case (Cons band bands)
  show ?case
  proof (cases "correction_factor wavelengths band")
    case (Inl e)
    then show ?thesis by simp
  next
    case (Inr factor)
    define base where "base = band * nlines * nsamples"
    define ys1 where "ys1 = write_at ys base (map (\<lambda>x. clip01 (fmul x (cast32 factor)))
        (slice (floats_of fs0 input_file) base (base + nlines * nsamples)))"
    define fs1 where "fs1 = fs0(output_file \<mapsto> Floats ys1)"
    have b1: "base + nlines * nsamples \<le> length ys"
      and b2: "base + nlines * nsamples \<le> length (floats_of fs0 input_file)"
      using Cons.prems(2,3) by (simp_all add: base_def)
    have p1: "process_band fs0 input_file output_file nlines nsamples factor c1 band
                = (fs1, Inr ())"
      using process_band_result [where chunk_size = c1 and ?fs0.0 = fs0
              and output_file = output_file and ys = ys and band = band and nlines = nlines
              and nsamples = nsamples and input_file = input_file and factor = factor]
            assms(1,2) Cons.prems(1) b1 b2
      by (simp add: fs1_def ys1_def base_def)
    have p2: "process_band fs0 input_file output_file nlines nsamples factor c2 band
                = (fs1, Inr ())"
      using process_band_result [where chunk_size = c2 and ?fs0.0 = fs0
              and output_file = output_file and ys = ys and band = band and nlines = nlines
              and nsamples = nsamples and input_file = input_file and factor = factor]
            assms(1,2) Cons.prems(1) b1 b2
      by (simp add: fs1_def ys1_def base_def)
    have len_m: "length (map (\<lambda>x. clip01 (fmul x (cast32 factor)))
        (slice (floats_of fs0 input_file) base (base + nlines * nsamples))) = nlines * nsamples"
      using length_slice [OF b2, of base] by simp
    have lys1: "length ys1 = length ys"
      unfolding ys1_def using b1 len_m by (intro length_write_at) simp
    have lin: "length (floats_of fs1 input_file) = length (floats_of fs0 input_file)"
      using Cons.prems(1) lys1 by (simp add: fs1_def floats_of_def)
    have ih: "band_loop fs1 input_file output_file nlines nsamples wavelengths c1 bands
                = band_loop fs1 input_file output_file nlines nsamples wavelengths c2 bands"
    proof (rule Cons.IH)
      show "fs1 output_file = Some (Floats ys1)" by (simp add: fs1_def)
      show "\<forall>band\<in>set bands. band * nlines * nsamples + nlines * nsamples \<le> length ys1"
        using Cons.prems(2) lys1 by simp
      show "\<forall>band\<in>set bands. band * nlines * nsamples + nlines * nsamples
              \<le> length (floats_of fs1 input_file)"
        using Cons.prems(3) lin by simp
    qed
    show ?thesis
      using Inr p1 p2 ih by simp
  qed
qed

lemma band_offset_bound:
  assumes "band < b"
  shows "band * l * s + l * s \<le> b * l * (s :: nat)"
proof -
  have "Suc band \<le> b" using assms by simp
  then have "Suc band * (l * s) \<le> b * (l * s)" by (rule mult_le_mono1)
  then show ?thesis by (simp add: algebra_simps)
qed

lemma memmap_create_cases:
  "(\<exists>e ys. memmap_create fs0 output_file nbands nlines nsamples
             = (fs0(output_file \<mapsto> Floats ys), Inl e))
   \<or> (\<exists>b l s. nbands = IntV (int b) \<and> nlines = IntV (int l) \<and> nsamples = IntV (int s)
         \<and> memmap_create fs0 output_file nbands nlines nsamples
             = (fs0(output_file \<mapsto> Floats (replicate (b * l * s) (Fin 0))), Inr (b, l, s)))"
proof (cases "int_dims nbands nlines nsamples")
  case None
  then have "memmap_create fs0 output_file nbands nlines nsamples
               = (fs0(output_file \<mapsto> Floats []), Inl TypeError)"
    by (simp add: memmap_create_def)
  then show ?thesis by blast
next
  case (Some d)
  obtain b l s where d: "d = (b, l, s)" by (cases d) auto
  have dims: "nbands = IntV b \<and> nlines = IntV l \<and> nsamples = IntV s"
    using Some d by (auto simp: int_dims_def split: hvalue.splits)
  show ?thesis
  proof (cases "b < 0 \<or> l < 0 \<or> s < 0")
    case True
    then have "memmap_create fs0 output_file nbands nlines nsamples
        = (fs0(output_file \<mapsto> Floats (replicate (nat (b * l * s)) (Fin 0))),
           Inl (ValueError ''negative dimensions are not allowed''))"
      using Some d by (simp add: memmap_create_def)
    then show ?thesis by blast
  next
    case False
    then have "int (nat b) = b" "int (nat l) = l" "int (nat s) = s" by simp_all
    then have "nbands = IntV (int (nat b)) \<and> nlines = IntV (int (nat l))
                 \<and> nsamples = IntV (int (nat s))"
      using dims by simp
    moreover have "memmap_create fs0 output_file nbands nlines nsamples
        = (fs0(output_file \<mapsto> Floats (replicate (nat b * nat l * nat s) (Fin 0))),
           Inr (nat b, nat l, nat s))"
      using Some d False by (simp add: memmap_create_def)
    ultimately show ?thesis by blast
  qed
qed

lemma memmap_open_length:
  "memmap_open fs1 input_file n = Inr u \<Longrightarrow> n \<le> length (floats_of fs1 input_file)"
  by (auto simp: memmap_open_def floats_of_def split: option.splits content.splits if_splits)

lemma process_cube_chunk_size:
  assumes "0 < c1" and "0 < c2"
  shows "process_cube fs0 input_file output_file nbands nlines nsamples wavelengths c1
           = process_cube fs0 input_file output_file nbands nlines nsamples wavelengths c2"
proof -
  consider (err) e ys where "memmap_create fs0 output_file nbands nlines nsamples
             = (fs0(output_file \<mapsto> Floats ys), Inl e)"
    | (ok) b l s where "memmap_create fs0 output_file nbands nlines nsamples
             = (fs0(output_file \<mapsto> Floats (replicate (b * l * s) (Fin 0))), Inr (b, l, s))"
    using memmap_create_cases [of fs0 output_file nbands nlines nsamples] by blast
  then show ?thesis
  proof cases
    case err
    then show ?thesis by (simp add: process_cube_def)
  next
    case ok
    define fs1 where "fs1 = fs0(output_file \<mapsto> Floats (replicate (b * l * s) (Fin 0)))"
    have mc: "memmap_create fs0 output_file nbands nlines nsamples = (fs1, Inr (b, l, s))"
      using ok by (simp add: fs1_def)
    show ?thesis
    proof (cases "memmap_open fs1 input_file (b * l * s)")
      case (Inl e)
      then show ?thesis using mc by (simp add: process_cube_def)
    next
      case (Inr u)
      then have len: "b * l * s \<le> length (floats_of fs1 input_file)"
        by (rule memmap_open_length)
      have "band_loop fs1 input_file output_file l s wavelengths c1 [0..<b]
              = band_loop fs1 input_file output_file l s wavelengths c2 [0..<b]"
      proof (rule band_loop_chunk_size [OF assms])
        show "fs1 output_file = Some (Floats (replicate (b * l * s) (Fin 0)))"
          by (simp add: fs1_def)
        show "\<forall>band\<in>set [0..<b]. band * l * s + l * s
                \<le> length (replicate (b * l * s) (Fin 0))"
          using band_offset_bound by simp
        show "\<forall>band\<in>set [0..<b]. band * l * s + l * s \<le> length (floats_of fs1 input_file)"
        proof
          fix band
          assume "band \<in> set [0..<b]"
          then have "band < b" by simp
          then have "band * l * s + l * s \<le> b * l * s" by (rule band_offset_bound)
          then show "band * l * s + l * s \<le> length (floats_of fs1 input_file)"
            using len by (rule order_trans)
        qed
      qed
      then show ?thesis using mc Inr by (simp add: process_cube_def)
    qed
  qed
qed

lemma correct_cube_chunk_size:
  assumes "0 < c1" and "0 < c2"
  shows "correct_cube bi fs0 input_file refl_header rad_header c1
           = correct_cube bi fs0 input_file refl_header rad_header c2"
proof -
  have pc: "process_cube f i out nb nls ns wl c1 = process_cube f i out nb nls ns wl c2"
    for f i out nb nls ns wl
    using assms by (rule process_cube_chunk_size)
  show ?thesis
    unfolding correct_cube_def pc by (rule refl)
qed

lemma single_chunk:
  assumes "0 < nlines" and "nlines \<le> chunk_size"
  shows "chunk_loop fs0 input_file output_file base nlines nsamples factor chunk_size 0
           = process_chunk fs0 input_file output_file base nsamples factor 0 nlines"
proof -
  have "chunk_loop fs0 input_file output_file base nlines nsamples factor chunk_size 0
          = chunk_loop (process_chunk fs0 input_file output_file base nsamples factor 0 nlines)
              input_file output_file base nlines nsamples factor chunk_size chunk_size"
    using assms by (subst chunk_loop.simps) (simp add: min_def)
  also have "\<dots> = process_chunk fs0 input_file output_file base nsamples factor 0 nlines"
    using assms by (subst chunk_loop.simps) simp
  finally show ?thesis .
qed

text \<open>
  Claim C3.  A run with any chunk size of at least 1 leaves the same file system (so the
  same output cube, byte for byte) and has the same outcome as a run with any other such
  chunk size, in particular one that is at least \<open>lines\<close> and so processes each band as a
  single chunk (lemma \<open>single_chunk\<close>); the last chunk of a band ends at \<open>nlines\<close>.
\<close>

theorem chunk_size_irrelevant:
  assumes "1 \<le> chunk_size" and "1 \<le> whole"
  shows "apply_enhanced_radiometric_correction bi fs0 reflectance_files radiance_files chunk_size
           = apply_enhanced_radiometric_correction bi fs0 reflectance_files radiance_files whole"
proof -
  have "0 < chunk_size" and "0 < whole" using assms by simp_all
  then have cc: "correct_cube bi fs0 i r d chunk_size = correct_cube bi fs0 i r d whole" for i r d
    by (rule correct_cube_chunk_size)
  show ?thesis
    unfolding apply_enhanced_radiometric_correction_def cc by (rule refl)
qed

text \<open>
  The sample cube with chunks of two rows and as a whole: the runs agree, and the second
  band is clipped to 1.
\<close>

theorem chunk_size_irrelevant_witness:
  "(1::int) \<le> 2 \<and> (1::int) \<le> 500
   \<and> apply_enhanced_radiometric_correction example_builtins sample_fs
         sample_reflectance_files sample_radiance_files 2
       = apply_enhanced_radiometric_correction example_builtins sample_fs
           sample_reflectance_files sample_radiance_files 500
   \<and> floats_of (fst (apply_enhanced_radiometric_correction example_builtins sample_fs
                         sample_reflectance_files sample_radiance_files 2)) ''s_radcorr.dat''
       = [Fin 0, Fin (1 / 10), Fin (2 / 10), Fin (3 / 10), Fin (4 / 10), Fin (5 / 10),
          Fin 1, Fin 1, Fin 1, Fin 1, Fin 1, Fin 1]"
proof -
  have e: "floats_of (fst (apply_enhanced_radiometric_correction example_builtins sample_fs
                         sample_reflectance_files sample_radiance_files 2)) ''s_radcorr.dat''
       = [Fin 0, Fin (1 / 10), Fin (2 / 10), Fin (3 / 10), Fin (4 / 10), Fin (5 / 10),
          Fin 1, Fin 1, Fin 1, Fin 1, Fin 1, Fin 1]"
    by code_simp
  have le: "(1::int) \<le> 2" "(1::int) \<le> 500" by simp_all
  show ?thesis
    using chunk_size_irrelevant [OF le, of example_builtins sample_fs sample_reflectance_files
            sample_radiance_files] e le
    by simp
qed

subsection \<open>What a run writes\<close>

lemma nth_slice: "b \<le> length xs \<Longrightarrow> i < b - a \<Longrightarrow> slice xs a b ! i = xs ! (a + i)"
  by (simp add: slice_def)

lemma nth_write_at:
  assumes "a + length m \<le> length ys" and "i < length ys"
  shows "write_at ys a m ! i = (if a \<le> i \<and> i < a + length m then m ! (i - a) else ys ! i)"
proof -
  have la: "length (take a ys) = a" using assms(1) by simp
  show ?thesis
  proof (cases "i < a")
    case True
    then show ?thesis using assms by (simp add: write_at_def nth_append)
  next
    case ge: False
    show ?thesis
    proof (cases "i < a + length m")
      case True
      then have "i - a < length m" using ge by simp
      then show ?thesis using ge True assms by (simp add: write_at_def nth_append)
    next
      case False
      then have i: "a + length m + (i - a - length m) = i" by simp
      have "write_at ys a m ! i = (m @ drop (a + length m) ys) ! (i - a)"
        using ge la by (simp add: write_at_def nth_append)
      also have "\<dots> = drop (a + length m) ys ! (i - a - length m)"
      proof -
        have "\<not> i - a < length m" using ge False by arith
        then show ?thesis by (simp only: nth_append if_False)
      qed
      also have "\<dots> = ys ! (a + length m + (i - a - length m))"
        using assms(1) by (intro nth_drop) simp
      finally show ?thesis using False i by simp
    qed
  qed
qed

lemma band_index:
  assumes "k * l * s \<le> i" and "i < k * l * s + l * (s :: nat)"
  shows "i div (l * s) = k"
proof (rule div_nat_eqI)
  show "l * s * k \<le> i" using assms(1) by (simp add: algebra_simps)
  show "i < l * s * Suc k" using assms(2) by (simp add: algebra_simps)
qed

text \<open>
  The band loop over the bands \<open>k..<b\<close>: outside the rows of these bands the output file
  is as before, and each element of these bands is the clipped product of the element of
  the input file, as it was before the loop, and the factor of its band converted to
  float32.  Each band reads and writes only its own rows, so this also holds when both
  paths name the same file.
\<close>

lemma band_loop_result:
  assumes cs: "0 < chunk_size"
  shows "fs0 output_file = Some (Floats ys) \<Longrightarrow> b * l * s \<le> length ys \<Longrightarrow>
         b * l * s \<le> length (floats_of fs0 input_file) \<Longrightarrow>
         band_loop fs0 input_file output_file l s wavelengths chunk_size [k..<b] = (fs1, Inr u) \<Longrightarrow>
         \<exists>zs. fs1 = fs0(output_file \<mapsto> Floats zs) \<and> length zs = length ys
           \<and> (\<forall>i<length ys.
                 (i < k * l * s \<or> b * l * s \<le> i \<longrightarrow> zs ! i = ys ! i)
                 \<and> (k * l * s \<le> i \<and> i < b * l * s \<longrightarrow>
                      (\<exists>f. correction_factor wavelengths (i div (l * s)) = Inr f
                          \<and> zs ! i = clip01 (fmul (floats_of fs0 input_file ! i) (cast32 f)))))"
proof (induction "b - k" arbitrary: k fs0 ys)
  case 0
  then have "b \<le> k" by simp
  then have e: "[k..<b] = []" and le: "b * l * s \<le> k * l * s" by simp_all
  have "fs1 = fs0" using "0.prems"(4) e by simp
  then have "fs1 = fs0(output_file \<mapsto> Floats ys)"
    using "0.prems"(1) by (simp add: fun_upd_idem)
  moreover have "\<not> (k * l * s \<le> i \<and> i < b * l * s)" for i using le by linarith
  ultimately show ?case by auto
next
  case (Suc n)
  then have kb: "k < b" by simp
  then have e: "[k..<b] = k # [Suc k..<b]" by (rule upt_conv_Cons)
  define xs where "xs = floats_of fs0 input_file"
  define base where "base = k * l * s"
  obtain f where f: "correction_factor wavelengths k = Inr f"
    using Suc.prems(4) e by (cases "correction_factor wavelengths k") auto
  define m where "m = map (\<lambda>x. clip01 (fmul x (cast32 f))) (slice xs base (base + l * s))"
  define ys1 where "ys1 = write_at ys base m"
  define fs' where "fs' = fs0(output_file \<mapsto> Floats ys1)"
  have bb: "base + l * s \<le> b * l * s"
    unfolding base_def using kb by (rule band_offset_bound)
  have b1: "base + l * s \<le> length ys" using bb Suc.prems(2) by simp
  have b2: "base + l * s \<le> length xs" using bb Suc.prems(3) by (simp add: xs_def)
  have lm: "length m = l * s"
    using length_slice [OF b2, of base] by (simp add: m_def)
  have fit: "base + length m \<le> length ys" using b1 lm by simp
  have lys1: "length ys1 = length ys"
    unfolding ys1_def using fit by (rule length_write_at)
  have pb: "process_band fs0 input_file output_file l s f chunk_size k = (fs', Inr ())"
    using process_band_result [where chunk_size = chunk_size and ?fs0.0 = fs0
            and output_file = output_file and ys = ys and band = k and nlines = l
            and nsamples = s and input_file = input_file and factor = f]
          cs Suc.prems(1) b1 b2
    by (simp add: fs'_def ys1_def m_def base_def xs_def)
  have rest: "band_loop fs' input_file output_file l s wavelengths chunk_size [Suc k..<b]
                = (fs1, Inr u)"
    using Suc.prems(4) e f pb by simp
  have out': "fs' output_file = Some (Floats ys1)" by (simp add: fs'_def)
  have xs': "floats_of fs' input_file = (if input_file = output_file then ys1 else xs)"
    by (simp add: fs'_def floats_of_upd xs_def)
  have same: "input_file = output_file \<Longrightarrow> xs = ys"
    using Suc.prems(1) by (simp add: xs_def floats_of_def)
  have lx': "b * l * s \<le> length (floats_of fs' input_file)"
    using Suc.prems(2,3) lys1 by (simp add: xs' xs_def)
  have ly': "b * l * s \<le> length ys1" using Suc.prems(2) lys1 by simp
  have n: "n = b - Suc k" using Suc.hyps(2) by simp
  obtain zs where fs1: "fs1 = fs'(output_file \<mapsto> Floats zs)"
    and lzs: "length zs = length ys1"
    and pt: "\<And>i. i < length ys1 \<Longrightarrow>
               (i < Suc k * l * s \<or> b * l * s \<le> i \<longrightarrow> zs ! i = ys1 ! i)
               \<and> (Suc k * l * s \<le> i \<and> i < b * l * s \<longrightarrow>
                    (\<exists>f. correction_factor wavelengths (i div (l * s)) = Inr f
                        \<and> zs ! i = clip01 (fmul (floats_of fs' input_file ! i) (cast32 f))))"
    using Suc.hyps(1) [OF n out' ly' lx' rest] by blast
  have next_base: "Suc k * l * s = base + l * s" by (simp add: base_def algebra_simps)
  have keep: "ys1 ! i = ys ! i" if "i < length ys" and "i < base \<or> base + l * s \<le> i" for i
    using nth_write_at [OF fit that(1)] that(2) lm by (auto simp: ys1_def)
  have written: "ys1 ! i = clip01 (fmul (xs ! i) (cast32 f))"
    if "base \<le> i" and "i < base + l * s" for i
  proof -
    have il: "i < length ys" using that(2) b1 by simp
    have d: "i - base < (base + l * s) - base" using that by simp
    have "ys1 ! i = m ! (i - base)"
      using nth_write_at [OF fit il] that lm by (simp add: ys1_def)
    also have "\<dots> = clip01 (fmul (slice xs base (base + l * s) ! (i - base)) (cast32 f))"
      using that lm by (simp add: m_def)
    also have "slice xs base (base + l * s) ! (i - base) = xs ! (base + (i - base))"
      using b2 d by (rule nth_slice)
    also have "base + (i - base) = i" using that(1) by simp
    finally show ?thesis .
  qed
  have "(i < k * l * s \<or> b * l * s \<le> i \<longrightarrow> zs ! i = ys ! i)
        \<and> (k * l * s \<le> i \<and> i < b * l * s \<longrightarrow>
             (\<exists>f. correction_factor wavelengths (i div (l * s)) = Inr f
                 \<and> zs ! i = clip01 (fmul (floats_of fs0 input_file ! i) (cast32 f))))"
    if il: "i < length ys" for i
  proof (intro conjI impI)
    have il1: "i < length ys1" using il lys1 by simp
    {
      assume a: "i < k * l * s \<or> b * l * s \<le> i"
      then have "i < Suc k * l * s \<or> b * l * s \<le> i"
        unfolding next_base base_def by linarith
      then have "zs ! i = ys1 ! i" using pt [OF il1] by blast
      moreover have "i < base \<or> base + l * s \<le> i" using a bb by (auto simp: base_def)
      ultimately show "zs ! i = ys ! i" using keep [OF il] by simp
    }
    {
      assume a: "k * l * s \<le> i \<and> i < b * l * s"
      show "\<exists>f. correction_factor wavelengths (i div (l * s)) = Inr f
                 \<and> zs ! i = clip01 (fmul (floats_of fs0 input_file ! i) (cast32 f))"
      proof (cases "i < base + l * s")
        case True
        have "i < Suc k * l * s" using True next_base by simp
        then have "zs ! i = ys1 ! i" using pt [OF il1] by blast
        also have "\<dots> = clip01 (fmul (xs ! i) (cast32 f))"
          using a True by (intro written) (simp_all add: base_def)
        finally have "zs ! i = clip01 (fmul (floats_of fs0 input_file ! i) (cast32 f))"
          by (simp add: xs_def)
        moreover have "i div (l * s) = k"
          using a True by (intro band_index) (simp_all add: base_def)
        ultimately show ?thesis using f by simp
      next
        case False
        then have ge: "Suc k * l * s \<le> i" using next_base by simp
        then obtain f' where f': "correction_factor wavelengths (i div (l * s)) = Inr f'"
          and z: "zs ! i = clip01 (fmul (floats_of fs' input_file ! i) (cast32 f'))"
          using pt [OF il1] a by blast
        have "floats_of fs' input_file ! i = xs ! i"
        proof (cases "input_file = output_file")
          case True
          have "floats_of fs' input_file = ys1" unfolding xs' using True by simp
          then have "floats_of fs' input_file ! i = ys1 ! i" by simp
          also have "\<dots> = ys ! i" using False by (intro keep il) simp
          finally show ?thesis using same [OF True] by simp
        next
          case False
          then show ?thesis by (simp add: xs')
        qed
        then show ?thesis using f' z by (simp add: xs_def)
      qed
    }
  qed
  moreover have "fs1 = fs0(output_file \<mapsto> Floats zs)" by (simp add: fs1 fs'_def)
  moreover have "length zs = length ys" using lzs lys1 by simp
  ultimately show ?case by blast
qed

text \<open>The same for the whole cube: the input file is read as the creation of the output
  file leaves it.\<close>

lemma process_cube_result:
  assumes "0 < chunk_size"
    and "process_cube fs0 input_file output_file nbands nlines nsamples wavelengths chunk_size
           = (fs1, Inr u)"
  shows "\<exists>b l s zs. nbands = IntV (int b) \<and> nlines = IntV (int l) \<and> nsamples = IntV (int s)
           \<and> fs1 = fs0(output_file \<mapsto> Floats zs) \<and> length zs = b * l * s
           \<and> (\<forall>i<b * l * s. \<exists>f.
                 correction_factor wavelengths (i div (l * s)) = Inr f
                 \<and> zs ! i = clip01 (fmul (if input_file = output_file then Fin 0
                                          else floats_of fs0 input_file ! i) (cast32 f)))"
proof -
  consider (err) e ys where "memmap_create fs0 output_file nbands nlines nsamples
             = (fs0(output_file \<mapsto> Floats ys), Inl e)"
    | (ok) b l s where "nbands = IntV (int b)" "nlines = IntV (int l)" "nsamples = IntV (int s)"
        "memmap_create fs0 output_file nbands nlines nsamples
             = (fs0(output_file \<mapsto> Floats (replicate (b * l * s) (Fin 0))), Inr (b, l, s))"
    using memmap_create_cases [of fs0 output_file nbands nlines nsamples] by blast
  then show ?thesis
  proof cases
    case err
    then show ?thesis using assms(2) by (simp add: process_cube_def)
  next
    case ok
    define zeros where "zeros = replicate (b * l * s) (Fin 0)"
    define fs' where "fs' = fs0(output_file \<mapsto> Floats zeros)"
    have mc: "memmap_create fs0 output_file nbands nlines nsamples = (fs', Inr (b, l, s))"
      using ok(4) by (simp add: fs'_def zeros_def)
    obtain v where mo: "memmap_open fs' input_file (b * l * s) = Inr v"
      using assms(2) mc by (cases "memmap_open fs' input_file (b * l * s)")
        (auto simp: process_cube_def)
    have len: "b * l * s \<le> length (floats_of fs' input_file)"
      using mo by (rule memmap_open_length)
    have bl: "band_loop fs' input_file output_file l s wavelengths chunk_size [0..<b]
                = (fs1, Inr u)"
      using assms(2) mc mo by (simp add: process_cube_def)
    have out': "fs' output_file = Some (Floats zeros)" by (simp add: fs'_def)
    have lz: "b * l * s \<le> length zeros" by (simp add: zeros_def)
    obtain zs where fs1: "fs1 = fs'(output_file \<mapsto> Floats zs)"
      and lzs: "length zs = length zeros"
      and pt: "\<And>i. i < length zeros \<Longrightarrow> 0 * l * s \<le> i \<and> i < b * l * s \<longrightarrow>
                 (\<exists>f. correction_factor wavelengths (i div (l * s)) = Inr f
                     \<and> zs ! i = clip01 (fmul (floats_of fs' input_file ! i) (cast32 f)))"
      using band_loop_result [OF assms(1) out' lz len bl] by blast
    have src: "floats_of fs' input_file ! i
                 = (if input_file = output_file then Fin 0 else floats_of fs0 input_file ! i)"
      if "i < b * l * s" for i
      using that by (simp add: fs'_def floats_of_upd zeros_def)
    have "\<exists>f. correction_factor wavelengths (i div (l * s)) = Inr f
              \<and> zs ! i = clip01 (fmul (if input_file = output_file then Fin 0
                                       else floats_of fs0 input_file ! i) (cast32 f))"
      if "i < b * l * s" for i
      using pt [of i] that src [OF that] by (simp add: zeros_def)
    moreover have "fs1 = fs0(output_file \<mapsto> Floats zs)" by (simp add: fs1 fs'_def)
    moreover have "length zs = b * l * s" using lzs by (simp add: zeros_def)
    ultimately show ?thesis using ok(1-3) by blast
  qed
qed

lemma dimension_mismatch_keys:
  assumes "dimension_mismatch refl_header rad_header = Inr False"
  shows "\<exists>nb nl ns. refl_header ''bands'' = Some nb \<and> refl_header ''lines'' = Some nl
           \<and> refl_header ''samples'' = Some ns"
proof -
  have k: "\<exists>v. refl_header k = Some v" if "differs refl_header rad_header k = Inr d" for k d
    using that by (auto simp: differs_def lookup_def split: option.splits)
  have s: "differs refl_header rad_header ''samples'' = Inr False"
    using assms by (auto simp: dimension_mismatch_def split: sum.splits bool.splits)
  have l: "differs refl_header rad_header ''lines'' = Inr False"
    using assms s by (auto simp: dimension_mismatch_def split: sum.splits bool.splits)
  have b: "differs refl_header rad_header ''bands'' = Inr False"
    using assms s l by (simp add: dimension_mismatch_def)
  show ?thesis using k [OF s] k [OF l] k [OF b] by blast
qed

text \<open>
  A run that returns, with a chunk size of at least 1: the three dimensions are
  non-negative integers, the output cube has \<open>bands * lines * samples\<close> elements, each the
  clipped product of the input element (a zero when the output path is the input path)
  and the factor that the wavelength entry of the radiance header gives its band, and
  the output header holds the text built from the same entry.  Nothing else is changed.
\<close>

lemma correct_cube_result:
  assumes "0 < chunk_size"
    and "correct_cube bi fs0 input_file refl_header rad_header chunk_size
           = (fs1, Inr (output_file, scale))"
  shows "\<exists>b l s zs body.
           refl_header ''bands'' = Some (IntV (int b))
           \<and> refl_header ''lines'' = Some (IntV (int l))
           \<and> refl_header ''samples'' = Some (IntV (int s))
           \<and> output_file = replace ''reflectance'' ''radcorr'' input_file
           \<and> header_text bi (IntV (int s)) (IntV (int l)) (IntV (int b))
                 (rad_header ''wavelength'') rad_header = (body, None)
           \<and> fs1 = fs0(output_file \<mapsto> Floats zs, output_file @ ''.hdr'' \<mapsto> Text body)
           \<and> length zs = b * l * s
           \<and> (\<forall>i<b * l * s. \<exists>f.
                 correction_factor (rad_header ''wavelength'') (i div (l * s)) = Inr f
                 \<and> zs ! i = clip01 (fmul (if input_file = output_file then Fin 0
                                          else floats_of fs0 input_file ! i) (cast32 f)))"
proof -
  define wl where "wl = rad_header ''wavelength''"
  define out where "out = replace ''reflectance'' ''radcorr'' input_file"
  have dm: "dimension_mismatch refl_header rad_header = Inr False"
    using assms(2) by (auto simp: correct_cube_def split: sum.splits bool.splits)
  obtain nb nl ns where keys: "refl_header ''bands'' = Some nb" "refl_header ''lines'' = Some nl"
      "refl_header ''samples'' = Some ns"
    using dimension_mismatch_keys [OF dm] by blast
  obtain fs2 r2 where pc: "process_cube fs0 input_file out nb nl ns wl chunk_size = (fs2, r2)"
    by (cases "process_cube fs0 input_file out nb nl ns wl chunk_size") auto
  obtain fs3 r3 where wh: "write_header bi fs2 (out @ ''.hdr'') ns nl nb wl rad_header
      = (fs3, r3)"
    by (cases "write_header bi fs2 (out @ ''.hdr'') ns nl nb wl rad_header") auto
  have run: "(case report_wavelengths wl of
                Inl e \<Rightarrow> (fs0, Inl e)
              | Inr _ \<Rightarrow>
                  (case (fs2, r2) of
                     (fs2, Inl e) \<Rightarrow> (fs2, Inl e)
                   | (fs2, Inr _) \<Rightarrow>
                       (case write_header bi fs2 (out @ ''.hdr'') ns nl nb wl rad_header of
                          (fs3, Inl e) \<Rightarrow> (fs3, Inl e)
                        | (fs3, Inr _) \<Rightarrow> (fs3, Inr (out, radiance_scale bi rad_header)))))
             = (fs1, Inr (output_file, scale))"
    using assms(2) unfolding correct_cube_def dm keys Let_def get_wavelengths_def option.sel
      wl_def [symmetric] out_def [symmetric] pc
    by simp
  obtain u2 where r2: "r2 = Inr u2"
    using run by (cases r2) (auto split: sum.splits)
  obtain u3 where r3: "r3 = Inr u3"
    using run r2 wh by (cases r3) (auto split: sum.splits)
  have res: "fs1 = fs3" "output_file = out"
    using run r2 r3 wh by (auto split: sum.splits)
  obtain body where ht: "header_text bi ns nl nb wl rad_header = (body, None)"
    and fs3: "fs3 = fs2(out @ ''.hdr'' \<mapsto> Text body)"
    using wh r3 by (auto simp: write_header_def split: prod.splits option.splits)
  obtain b l s zs where dims: "nb = IntV (int b)" "nl = IntV (int l)" "ns = IntV (int s)"
    and fs2: "fs2 = fs0(out \<mapsto> Floats zs)" and lzs: "length zs = b * l * s"
    and pt: "\<forall>i<b * l * s. \<exists>f.
                 correction_factor wl (i div (l * s)) = Inr f
                 \<and> zs ! i = clip01 (fmul (if input_file = out then Fin 0
                                          else floats_of fs0 input_file ! i) (cast32 f))"
    using process_cube_result [OF assms(1) pc [unfolded r2]] by blast
  show ?thesis
    using keys dims res ht fs3 fs2 lzs pt
    by (intro exI [of _ b] exI [of _ l] exI [of _ s] exI [of _ zs] exI [of _ body])
       (simp add: wl_def out_def del: replace.simps)
qed
subsection \<open>Clipping\<close>


lemma header_path_differs: "output_file @ ''.hdr'' \<noteq> output_file"
  by simp


subsection \<open>The source of the wavelength table\<close>

lemma fmul_one: "fmul x (Fin 1) = x"
  by (cases x) (simp_all add: inf_times_def)

lemma cast32_one: "cast32 (Fin 1) = Fin 1"
  by (simp add: cast32_def float32_limit_def float32_tiny_def)

lemma correct_cube_reflectance_wavelength:
  "correct_cube bi fs0 input_file (refl_header(''wavelength'' := w)) rad_header chunk_size
     = correct_cube bi fs0 input_file refl_header rad_header chunk_size"
proof -
  have k: "differs (refl_header(''wavelength'' := w)) rad_header ''samples''
             = differs refl_header rad_header ''samples''"
       "differs (refl_header(''wavelength'' := w)) rad_header ''lines''
             = differs refl_header rad_header ''lines''"
       "differs (refl_header(''wavelength'' := w)) rad_header ''bands''
             = differs refl_header rad_header ''bands''"
    by (simp_all add: differs_def lookup_def)
  have d: "dimension_mismatch (refl_header(''wavelength'' := w)) rad_header
             = dimension_mismatch refl_header rad_header"
    unfolding dimension_mismatch_def k by (rule refl)
  have u: "(refl_header(''wavelength'' := w)) ''bands'' = refl_header ''bands''"
          "(refl_header(''wavelength'' := w)) ''lines'' = refl_header ''lines''"
          "(refl_header(''wavelength'' := w)) ''samples'' = refl_header ''samples''"
    by simp_all
  show ?thesis
    unfolding correct_cube_def d u get_wavelengths_def by (rule refl)
qed

text \<open>
  Claim C8, as the code has it.  For a run that returns, with a chunk size of at least 1:
  whatever the reflectance header declares under \<open>wavelength\<close> has no effect on the run;
  the factor applied to each element of the output cube is the one that the
  \<open>wavelength\<close> entry of the radiance header gives its band; when that entry is a
  non-empty list of floats, the factor of a band below its length comes from this list
  and the output header holds exactly this list, with six decimals; and when the radiance
  header has no such entry, every element is only clipped (the factor is \<open>1.0\<close>) and the
  output header holds the fixed fields and the copied fields, without a wavelength list.
\<close>

theorem wavelength_source:
  assumes "correct_cube bi fs0 input_file refl_header rad_header chunk_size
             = (fs1, Inr (output_file, scale))"
    and "1 \<le> chunk_size"
    and "refl_header ''bands'' = Some (IntV nbands)"
    and "refl_header ''lines'' = Some (IntV nlines)"
    and "refl_header ''samples'' = Some (IntV nsamples)"
  shows "correct_cube bi fs0 input_file (refl_header(''wavelength'' := w)) rad_header chunk_size
           = (fs1, Inr (output_file, scale))
         \<and> (\<exists>zs. fs1 output_file = Some (Floats zs)
               \<and> (\<forall>i<length zs. \<exists>factor.
                     correction_factor (rad_header ''wavelength'')
                         (i div (nat nlines * nat nsamples)) = Inr factor
                     \<and> zs ! i = clip01 (fmul (if input_file = output_file then Fin 0
                                              else floats_of fs0 input_file ! i)
                                        (cast32 factor))
                     \<and> (\<forall>ws. rad_header ''wavelength'' = Some (FloatList ws)
                               \<and> i div (nat nlines * nat nsamples) < length ws
                           \<longrightarrow> factor = wavelength_factor
                                            (ws ! (i div (nat nlines * nat nsamples))))
                     \<and> (rad_header ''wavelength'' = None
                           \<longrightarrow> zs ! i = clip01 (if input_file = output_file then Fin 0
                                                 else floats_of fs0 input_file ! i))))
         \<and> (\<forall>ws. rad_header ''wavelength'' = Some (FloatList ws) \<and> ws \<noteq> [] \<longrightarrow>
                fs1 (output_file @ ''.hdr'')
                  = Some (Text (fixed_fields (IntV nsamples) (IntV nlines) (IntV nbands) bi
                                @ ''wavelength = {'' @ nl
                                @ join ('','' @ nl) (map (\<lambda>w. '' '' @ format6 w) ws)
                                @ ''}'' @ nl
                                @ copy_field bi rad_header ''wavelength units''
                                @ copy_field bi rad_header ''acquisition date''
                                @ copy_field bi rad_header ''sensor type'')))
         \<and> (rad_header ''wavelength'' = None \<longrightarrow>
                fs1 (output_file @ ''.hdr'')
                  = Some (Text (fixed_fields (IntV nsamples) (IntV nlines) (IntV nbands) bi
                                @ copy_field bi rad_header ''wavelength units''
                                @ copy_field bi rad_header ''acquisition date''
                                @ copy_field bi rad_header ''sensor type'')))"
proof -
  have cs: "0 < chunk_size" using assms(2) by simp
  obtain b l s zs body where
        dims: "refl_header ''bands'' = Some (IntV (int b))"
              "refl_header ''lines'' = Some (IntV (int l))"
              "refl_header ''samples'' = Some (IntV (int s))"
    and ht: "header_text bi (IntV (int s)) (IntV (int l)) (IntV (int b))
               (rad_header ''wavelength'') rad_header = (body, None)"
    and fs1: "fs1 = fs0(output_file \<mapsto> Floats zs, output_file @ ''.hdr'' \<mapsto> Text body)"
    and lzs: "length zs = b * l * s"
    and pt: "\<forall>i<b * l * s. \<exists>f.
               correction_factor (rad_header ''wavelength'') (i div (l * s)) = Inr f
               \<and> zs ! i = clip01 (fmul (if input_file = output_file then Fin 0
                                        else floats_of fs0 input_file ! i) (cast32 f))"
    using correct_cube_result [OF cs assms(1)] by blast
  have n: "nat nlines = l" "nat nsamples = s"
    using dims assms(4,5) by simp_all
  have v: "IntV (int b) = IntV nbands" "IntV (int l) = IntV nlines" "IntV (int s) = IntV nsamples"
    using dims assms(3-5) by simp_all
  have c1: "correct_cube bi fs0 input_file (refl_header(''wavelength'' := w)) rad_header
              chunk_size = (fs1, Inr (output_file, scale))"
    unfolding correct_cube_reflectance_wavelength by (rule assms(1))
  have out: "fs1 output_file = Some (Floats zs)"
    using header_path_differs [of output_file] by (simp add: fs1)
  have hdr: "fs1 (output_file @ ''.hdr'') = Some (Text body)"
    by (simp add: fs1)
  have "\<exists>factor.
          correction_factor (rad_header ''wavelength'') (i div (l * s)) = Inr factor
          \<and> zs ! i = clip01 (fmul (if input_file = output_file then Fin 0
                                   else floats_of fs0 input_file ! i) (cast32 factor))
          \<and> (\<forall>ws. rad_header ''wavelength'' = Some (FloatList ws) \<and> i div (l * s) < length ws
                \<longrightarrow> factor = wavelength_factor (ws ! (i div (l * s))))
          \<and> (rad_header ''wavelength'' = None
                \<longrightarrow> zs ! i = clip01 (if input_file = output_file then Fin 0
                                      else floats_of fs0 input_file ! i))"
    if i: "i < b * l * s" for i
  proof -
    obtain f where f: "correction_factor (rad_header ''wavelength'') (i div (l * s)) = Inr f"
      and z: "zs ! i = clip01 (fmul (if input_file = output_file then Fin 0
                                     else floats_of fs0 input_file ! i) (cast32 f))"
      using pt i by blast
    have t: "f = wavelength_factor (ws ! (i div (l * s)))"
      if "rad_header ''wavelength'' = Some (FloatList ws)" and "i div (l * s) < length ws" for ws
      using f that by (cases ws) (auto simp: correction_factor_def)
    have "f = Fin 1" if "rad_header ''wavelength'' = None"
      using f that by (simp add: correction_factor_def)
    then have o: "zs ! i = clip01 (if input_file = output_file then Fin 0
                                   else floats_of fs0 input_file ! i)"
      if "rad_header ''wavelength'' = None"
      using z that by (simp add: cast32_one fmul_one)
    show ?thesis
    proof (intro exI [of _ f] conjI allI impI)
      show "correction_factor (rad_header ''wavelength'') (i div (l * s)) = Inr f"
        by (rule f)
      show "zs ! i = clip01 (fmul (if input_file = output_file then Fin 0
                                   else floats_of fs0 input_file ! i) (cast32 f))"
        by (rule z)
    next
      fix ws
      assume "rad_header ''wavelength'' = Some (FloatList ws) \<and> i div (l * s) < length ws"
      then show "f = wavelength_factor (ws ! (i div (l * s)))"
        using t by simp
    next
      assume "rad_header ''wavelength'' = None"
      then show "zs ! i = clip01 (if input_file = output_file then Fin 0
                                  else floats_of fs0 input_file ! i)"
        by (rule o)
    qed
  qed
  then have c2: "\<exists>zs. fs1 output_file = Some (Floats zs)
               \<and> (\<forall>i<length zs. \<exists>factor.
                     correction_factor (rad_header ''wavelength'')
                         (i div (nat nlines * nat nsamples)) = Inr factor
                     \<and> zs ! i = clip01 (fmul (if input_file = output_file then Fin 0
                                              else floats_of fs0 input_file ! i)
                                        (cast32 factor))
                     \<and> (\<forall>ws. rad_header ''wavelength'' = Some (FloatList ws)
                               \<and> i div (nat nlines * nat nsamples) < length ws
                           \<longrightarrow> factor = wavelength_factor
                                            (ws ! (i div (nat nlines * nat nsamples))))
                     \<and> (rad_header ''wavelength'' = None
                           \<longrightarrow> zs ! i = clip01 (if input_file = output_file then Fin 0
                                                 else floats_of fs0 input_file ! i)))"
    using out lzs unfolding n by (intro exI [of _ zs]) simp
  have c3: "fs1 (output_file @ ''.hdr'')
                  = Some (Text (fixed_fields (IntV nsamples) (IntV nlines) (IntV nbands) bi
                                @ ''wavelength = {'' @ nl
                                @ join ('','' @ nl) (map (\<lambda>w. '' '' @ format6 w) ws)
                                @ ''}'' @ nl
                                @ copy_field bi rad_header ''wavelength units''
                                @ copy_field bi rad_header ''acquisition date''
                                @ copy_field bi rad_header ''sensor type''))"
    if "rad_header ''wavelength'' = Some (FloatList ws) \<and> ws \<noteq> []" for ws
    using ht that unfolding hdr v
    by (auto simp: header_text_def wavelength_block_def truthy_def)
  have c4: "fs1 (output_file @ ''.hdr'')
                  = Some (Text (fixed_fields (IntV nsamples) (IntV nlines) (IntV nbands) bi
                                @ copy_field bi rad_header ''wavelength units''
                                @ copy_field bi rad_header ''acquisition date''
                                @ copy_field bi rad_header ''sensor type''))"
    if "rad_header ''wavelength'' = None"
    using ht that unfolding hdr v
    by (auto simp: header_text_def wavelength_block_def)
  show ?thesis
    using c1 c2 c3 c4 by blast
qed

text \<open>
  Two runs on the sample cube.  In the first only the reflectance header declares a
  table: the output header has no wavelength list, and the run is the one without the
  declaration.  In the second the radiance header declares the table, which the output
  header holds.
\<close>

theorem wavelength_source_witness:
  "sample_refl_map ''wavelength'' = None
   \<and> fst (correct_cube example_builtins sample_fs ''s_reflectance.dat''
             (sample_refl_map(''wavelength'' \<mapsto> FloatList [Fin 1500])) sample_refl_map 2)
         ''s_radcorr.dat.hdr''
       = Some (Text (fixed_fields (IntV 2) (IntV 3) (IntV 2) example_builtins))
   \<and> correct_cube example_builtins sample_fs ''s_reflectance.dat''
         (sample_refl_map(''wavelength'' \<mapsto> FloatList [Fin 1500])) sample_refl_map 2
       = correct_cube example_builtins sample_fs ''s_reflectance.dat''
           (sample_refl_map(''wavelength'' := None)) sample_refl_map 2
   \<and> fst (correct_cube example_builtins sample_fs ''s_reflectance.dat'' sample_refl_map
             sample_rad_map 2) ''s_radcorr.dat.hdr''
       = Some (Text (fixed_fields (IntV 2) (IntV 3) (IntV 2) example_builtins
                     @ ''wavelength = {'' @ nl @ '' 500.000000,'' @ nl @ '' 1500.000000}'' @ nl))"
proof -
  define refl where "refl = sample_refl_map(''wavelength'' \<mapsto> FloatList [Fin 1500])"
  have none: "sample_refl_map ''wavelength'' = None"
    by (simp add: sample_refl_map_def)
  have le: "(1::int) \<le> 2" by simp
  have "snd (correct_cube example_builtins sample_fs ''s_reflectance.dat''
               (sample_refl_map(''wavelength'' \<mapsto> FloatList [Fin 1500])) sample_refl_map 2)
          = Inr (''s_radcorr.dat'', Fin 1000)"
    by code_simp
  then have run1: "correct_cube example_builtins sample_fs ''s_reflectance.dat'' refl
                     sample_refl_map 2
      = (fst (correct_cube example_builtins sample_fs ''s_reflectance.dat'' refl
                sample_refl_map 2), Inr (''s_radcorr.dat'', Fin 1000))"
    by (simp add: prod_eq_iff refl_def)
  have dims1: "refl ''bands'' = Some (IntV 2)" "refl ''lines'' = Some (IntV 3)"
              "refl ''samples'' = Some (IntV 2)"
    by (simp_all add: refl_def sample_refl_map_def)
  have "snd (correct_cube example_builtins sample_fs ''s_reflectance.dat'' sample_refl_map
               sample_rad_map 2) = Inr (''s_radcorr.dat'', Fin 1000)"
    by code_simp
  then have run2: "correct_cube example_builtins sample_fs ''s_reflectance.dat'' sample_refl_map
                     sample_rad_map 2
      = (fst (correct_cube example_builtins sample_fs ''s_reflectance.dat'' sample_refl_map
                sample_rad_map 2), Inr (''s_radcorr.dat'', Fin 1000))"
    by (simp add: prod_eq_iff)
  have dims2: "sample_refl_map ''bands'' = Some (IntV 2)"
              "sample_refl_map ''lines'' = Some (IntV 3)"
              "sample_refl_map ''samples'' = Some (IntV 2)"
    by (simp_all add: sample_refl_map_def)
  have table: "sample_rad_map ''wavelength'' = Some (FloatList [Fin 500, Fin 1500])"
    by (simp add: sample_rad_map_def)
  have copies1: "copy_field example_builtins sample_refl_map ''wavelength units'' = []"
                "copy_field example_builtins sample_refl_map ''acquisition date'' = []"
                "copy_field example_builtins sample_refl_map ''sensor type'' = []"
    by (simp_all add: copy_field_def sample_refl_map_def)
  have copies2: "copy_field example_builtins sample_rad_map ''wavelength units'' = []"
                "copy_field example_builtins sample_rad_map ''acquisition date'' = []"
                "copy_field example_builtins sample_rad_map ''sensor type'' = []"
    by (simp_all add: copy_field_def sample_rad_map_def sample_refl_map_def)
  have list: "join ('','' @ nl) (map (\<lambda>w. '' '' @ format6 w) [Fin 500, Fin 1500])
                = '' 500.000000,'' @ nl @ '' 1500.000000''"
    by code_simp
  note a = wavelength_source [OF run1 le dims1, of None]
  note b = wavelength_source [OF run2 le dims2, of None]
  have 1: "fst (correct_cube example_builtins sample_fs ''s_reflectance.dat'' refl
                  sample_refl_map 2) ''s_radcorr.dat.hdr''
             = Some (Text (fixed_fields (IntV 2) (IntV 3) (IntV 2) example_builtins))"
  proof -
    have "fst (correct_cube example_builtins sample_fs ''s_reflectance.dat'' refl
                 sample_refl_map 2) (''s_radcorr.dat'' @ ''.hdr'')
            = Some (Text (fixed_fields (IntV 2) (IntV 3) (IntV 2) example_builtins
                          @ copy_field example_builtins sample_refl_map ''wavelength units''
                          @ copy_field example_builtins sample_refl_map ''acquisition date''
                          @ copy_field example_builtins sample_refl_map ''sensor type''))"
      using a none by blast
    then show ?thesis unfolding copies1 by simp
  qed
  have 2: "correct_cube example_builtins sample_fs ''s_reflectance.dat'' refl sample_refl_map 2
             = correct_cube example_builtins sample_fs ''s_reflectance.dat''
                 (refl(''wavelength'' := None)) sample_refl_map 2"
  proof -
    have "correct_cube example_builtins sample_fs ''s_reflectance.dat''
            (refl(''wavelength'' := None)) sample_refl_map 2
          = (fst (correct_cube example_builtins sample_fs ''s_reflectance.dat'' refl
                    sample_refl_map 2), Inr (''s_radcorr.dat'', Fin 1000))"
      using a by blast
    then show ?thesis using run1 by simp
  qed
  have 3: "fst (correct_cube example_builtins sample_fs ''s_reflectance.dat'' sample_refl_map
                  sample_rad_map 2) ''s_radcorr.dat.hdr''
       = Some (Text (fixed_fields (IntV 2) (IntV 3) (IntV 2) example_builtins
                     @ ''wavelength = {'' @ nl @ '' 500.000000,'' @ nl @ '' 1500.000000}'' @ nl))"
  proof -
    have "fst (correct_cube example_builtins sample_fs ''s_reflectance.dat'' sample_refl_map
                 sample_rad_map 2) (''s_radcorr.dat'' @ ''.hdr'')
            = Some (Text (fixed_fields (IntV 2) (IntV 3) (IntV 2) example_builtins
                          @ ''wavelength = {'' @ nl
                          @ join ('','' @ nl) (map (\<lambda>w. '' '' @ format6 w) [Fin 500, Fin 1500])
                          @ ''}'' @ nl
                          @ copy_field example_builtins sample_rad_map ''wavelength units''
                          @ copy_field example_builtins sample_rad_map ''acquisition date''
                          @ copy_field example_builtins sample_rad_map ''sensor type''))"
      using b table by blast
    then show ?thesis unfolding copies2 list by simp
  qed
  show ?thesis
    using none 1 2 3 by (simp add: refl_def)
qed

text \<open>
  Claim C8 as stated fails: here only the reflectance header declares a table, and no
  table is used (the band factor is \<open>1.0\<close>).
\<close>

theorem wavelength_source_counterexample:
  "[''wavelength'' \<mapsto> FloatList [Fin 1500]] ''wavelength'' = Some (FloatList [Fin 1500])
   \<and> (Map.empty :: header_map) ''wavelength'' = None
   \<and> get_wavelengths [''wavelength'' \<mapsto> FloatList [Fin 1500]] Map.empty
       \<noteq> Some (FloatList [Fin 1500])
   \<and> correction_factor
         (get_wavelengths [''wavelength'' \<mapsto> FloatList [Fin 1500]] Map.empty) 0
       = Inr (Fin 1)"
  by (simp add: get_wavelengths_def correction_factor_def)

subsection \<open>Runs on the example files\<close>

text \<open>
  Claim C9 at a data path without \<open>reflectance\<close> in it.  The output path is then the
  input path: creating the output cube truncates and zero-fills the input file, and the
  run returns with the input file changed from \<open>[0.5]\<close> to \<open>[0]\<close>.
\<close>

theorem input_cube_overwritten:
  "plain_fs (data plain_reflectance_files) = Some (Floats [Fin (1 / 2)])
   \<and> snd (apply_enhanced_radiometric_correction example_builtins plain_fs
            plain_reflectance_files plain_radiance_files 500) = Inr (''cube.dat'', Fin 1000)
   \<and> fst (apply_enhanced_radiometric_correction example_builtins plain_fs
            plain_reflectance_files plain_radiance_files 500) (data plain_reflectance_files)
       = Some (Floats [Fin 0])"
  by code_simp


subsection \<open>Malformed header lines\<close>

lemma read_lines_append:
  "read_lines st (xs @ ys)
     = (case read_lines st xs of Inl e \<Rightarrow> Inl e | Inr st' \<Rightarrow> read_lines st' ys)"
  by (induction xs arbitrary: st) (auto split: sum.splits)

lemma skip_line_without_equals:
  assumes "\<not> collecting st" and "CHR ''='' \<notin> set (strip l)"
  shows "process_line st l = Inr st"
  using assms by (simp add: process_line_def Let_def)

lemma open_list_line:
  assumes "\<not> collecting st" and "opens_list l"
  shows "\<exists>st1. process_line st l = Inr st1 \<and> collecting st1
               \<and> header_info st1 = header_info st"
proof -
  have ne: "strip l \<noteq> []" using assms(2) by (auto simp: opens_list_def Let_def)
  show ?thesis
    using assms ne by (simp add: process_line_def opens_list_def Let_def collecting_def)
qed

lemma continuation_lines:
  assumes "collecting st" and "\<forall>c\<in>set cont. CHR ''}'' \<notin> set (strip c)"
  shows "\<exists>st2. read_lines st cont = Inr st2 \<and> collecting st2
               \<and> header_info st2 = header_info st"
  using assms
proof (induction cont arbitrary: st)
  case Nil
  then show ?case by simp
next
  case (Cons c cont)
  have "\<exists>st1. process_line st c = Inr st1 \<and> collecting st1
               \<and> header_info st1 = header_info st"
    using Cons.prems by (simp add: process_line_def Let_def collecting_def)
  then obtain st1 where st1: "process_line st c = Inr st1" "collecting st1"
      "header_info st1 = header_info st"
    by blast
  from Cons.IH [OF st1(2)] Cons.prems(2)
  obtain st2 where "read_lines st1 cont = Inr st2" "collecting st2"
      "header_info st2 = header_info st1"
    by auto
  then show ?case using st1 by simp
qed

text \<open>
  Claim C6, as the code has it.  The parser has no syntax error.  After any lines that
  leave it outside a list, a line without \<open>=\<close> is skipped (the result is the same as
  without the line), and a list that is opened and not closed before the end of the
  input is dropped: the map read before it is returned, without the pending key.
\<close>

theorem malformed_lines_are_dropped:
  assumes "read_lines init_pstate ls = Inr st" and "\<not> collecting st"
  shows "(CHR ''='' \<notin> set (strip l) \<longrightarrow>
            parse_header (ls @ [l] @ rest) = parse_header (ls @ rest))
         \<and> (opens_list l' \<and> (\<forall>c\<in>set cont. CHR ''}'' \<notin> set (strip c)) \<longrightarrow>
            parse_header (ls @ l' # cont) = Inr (header_info st))"
proof (intro conjI impI)
  assume "CHR ''='' \<notin> set (strip l)"
  then have "process_line st l = Inr st"
    using assms(2) by (intro skip_line_without_equals)
  then show "parse_header (ls @ [l] @ rest) = parse_header (ls @ rest)"
    using assms(1) by (simp add: parse_header_def read_lines_append)
next
  assume a: "opens_list l' \<and> (\<forall>c\<in>set cont. CHR ''}'' \<notin> set (strip c))"
  then obtain st1 where st1: "process_line st l' = Inr st1" "collecting st1"
      "header_info st1 = header_info st"
    using open_list_line [OF assms(2)] by blast
  obtain st2 where st2: "read_lines st1 cont = Inr st2" "header_info st2 = header_info st1"
    using continuation_lines [OF st1(2)] a by blast
  show "parse_header (ls @ l' # cont) = Inr (header_info st)"
    using assms(1) st1 st2 by (simp add: parse_header_def read_lines_append)
qed

text \<open>
  The line \<open>ENVI\<close> between two assignments, and a wavelength list that is never
  closed.
\<close>

theorem malformed_lines_are_dropped_witness:
  "parse_header ([''samples = 3''] @ [''ENVI''] @ [''lines = 2''])
     = parse_header ([''samples = 3''] @ [''lines = 2''])
   \<and> (\<exists>st. read_lines init_pstate [''samples = 3''] = Inr st
         \<and> parse_header ([''samples = 3''] @ ''wavelength = {'' # ['' 500, 600''])
             = Inr (header_info st))"
proof -
  have "case read_lines init_pstate [''samples = 3''] of Inl e \<Rightarrow> False
        | Inr s \<Rightarrow> \<not> collecting s"
    by code_simp
  then obtain st where st: "read_lines init_pstate [''samples = 3''] = Inr st"
      "\<not> collecting st"
    by (auto split: sum.splits)
  have e: "CHR ''='' \<notin> set (strip ''ENVI'')" by code_simp
  have o: "opens_list ''wavelength = {''" by code_simp
  have c: "\<forall>c\<in>set ['' 500, 600'']. CHR ''}'' \<notin> set (strip c)" by code_simp
  show ?thesis
    using malformed_lines_are_dropped [OF st, of "''ENVI''" "[''lines = 2'']"
            "''wavelength = {''" "['' 500, 600'']"] e o c st(1)
    by blast
qed

text \<open>
  Claim C6 as stated fails: an unterminated list and a line without \<open>=\<close> both give
  a map, not an error.
\<close>

theorem header_syntax_counterexample:
  "(case parse_header [''samples = 3'', ''wavelength = {'', '' 500, 600''] of
      Inl e \<Rightarrow> False
    | Inr h \<Rightarrow> h ''samples'' = Some (IntV 3) \<and> h ''wavelength'' = None)
   \<and> (case parse_header [''ENVI'', ''samples = 3''] of
      Inl e \<Rightarrow> False
    | Inr h \<Rightarrow> h ''samples'' = Some (IntV 3) \<and> h ''envi'' = None)"
  by code_simp

subsection \<open>Value coercion\<close>









end
